theory Spec2Isabelle
  imports Complex_Main
begin

section \<open>Data model of the quota service\<close>

text \<open>
  Timestamps are instants at second precision (the service truncates every
  timestamp to whole seconds), modelled as seconds since the epoch.  Quota
  amounts are \<open>float64\<close> in the source; they are modelled as exact reals, so
  rounding is outside this development.
\<close>

type_synonym time = int

text \<open>Modelled from the spec: the constants \<open>models.StatusValid\<close> and
  \<open>models.StatusExpired\<close> are declared outside the sources at hand; the data
  model gives a lot the two states VALID and EXPIRED.\<close>

datatype quota_status = StatusValid | StatusExpired

text \<open>\<open>models.Quota\<close>: one row of the quota table.  A table is the list of
  its rows in primary-key order, so a newly created row is appended and
  \<open>First\<close> returns the earliest matching row.\<close>

record Quota =
  UserID :: string
  Amount :: real
  ExpiryDate :: time
  Status :: quota_status

text \<open>The gateway keeps one total and one used counter per user, and the
  list of starred projects it was last told of.\<close>

record gateway =
  gwTotal :: "string \<Rightarrow> real"
  gwUsed :: "string \<Rightarrow> real"
  gwStarred :: "string \<Rightarrow> string"

text \<open>Every storage or gateway call of the service can fail.  A call site is
  named by a \<open>site\<close> (sites inside a loop carry the index of the iteration,
  gateway sites the user); a fault oracle says which sites fail in a run.\<close>

datatype site =
    GwGetTotal string
  | GwGetUsed string
  | GwDeltaTotal string
  | GwDeltaUsed string
  | GwSetStar
  | DbFindQuotas
  | DbFindExpired
  | DbMarkExpired
  | DbSumValid string
  | DbFindRedemption
  | DbCreateRedemption
  | DbFindQuota nat
  | DbCreateQuota nat
  | DbUpdateQuota nat
  | DbSumQuota nat
  | DbDeleteQuota nat
  | DbFindGroups
  | DbDeleteGroup nat
  | DbCreateMerged nat
  | DbCreateAudit
  | MarshalDetails
  | DbSaveSetting
  | DbCreateSetting
  | DbSaveEffective
  | DbCreateEffective
  | DbCreatePermissionAudit
  | HigressSet

type_synonym faults = "site \<Rightarrow> bool"

datatype error =
    UserNotFound string
  | DatabaseError string
  | ValidationFailed string
  | GithubStarRequired string
  | QuotaNotFound time
  | InsufficientAvailable time real real
  | InsufficientQuota time real real
  | Failed string

subsection \<open>Gateway calls\<close>



text \<open>Modelled from the spec: the gateway is an external service; \<open>addTotal\<close>
  and \<open>addUsed\<close> add the signed delta to the user's counter.\<close>

definition deltaQuotaInAiGateway :: "faults \<Rightarrow> gateway \<Rightarrow> string \<Rightarrow> real \<Rightarrow> error + gateway" where
  "deltaQuotaInAiGateway F gw userID delta =
     (if F (GwDeltaTotal userID) then Inl (Failed ''failed to delta quota'')
      else Inr (gw\<lparr>gwTotal := (gwTotal gw)(userID := gwTotal gw userID + delta)\<rparr>))"


section \<open>GetUserQuota\<close>



text \<open>The query \<open>WHERE user_id = ? AND status = ? ORDER BY expiry_date ASC\<close>.
  Rows with equal expiry dates keep their table order.\<close>

definition findValidQuotas :: "Quota list \<Rightarrow> string \<Rightarrow> Quota list" where
  "findValidQuotas db userID =
     sort_key ExpiryDate (filter (\<lambda>q. UserID q = userID \<and> Status q = StatusValid) db)"



subsection \<open>The net-available view, as the specification words it\<close>

text \<open>The debt still open when a lot is reached: the used amount less what the
  earlier lots absorbed, never negative.\<close>

definition debtBefore :: "real \<Rightarrow> Quota list \<Rightarrow> real" where
  "debtBefore used earlier = max 0 (used - sum_list (map Amount earlier))"

definition remainingOf :: "real \<Rightarrow> Quota list \<Rightarrow> nat \<Rightarrow> real" where
  "remainingOf used lots i = max 0 (Amount (lots ! i) - debtBefore used (take i lots))"


section \<open>Permission projector\<close>

text \<open>Modelled from the spec: the constants \<open>models.TargetTypeUser\<close> and
  \<open>models.TargetTypeDepartment\<close> and the operation names of the permission audit
  are declared outside the sources at hand; the data model gives a setting the
  target types USER and DEPARTMENT.\<close>

datatype target_type = TargetTypeUser | TargetTypeDepartment

datatype permission_operation =
    OperationQuotaCheckSet
  | OperationQuotaCheckSettingUpdate
  | OperationStarCheckSet
  | OperationStarCheckSettingUpdate

text \<open>\<open>models.QuotaCheckSetting\<close> and \<open>models.StarCheckSetting\<close> have the same
  columns; each family has a table of its own.\<close>

record Setting =
  ID :: int
  TargetType :: target_type
  TargetIdentifier :: string
  Enabled :: bool

text \<open>\<open>models.EffectiveQuotaCheckSetting\<close> and
  \<open>models.EffectiveStarCheckSetting\<close>.\<close>

record EffectiveSetting =
  effUserID :: string
  effEnabled :: bool
  effSettingID :: "int option"

record UserInfo =
  userInfoID :: string
  EmployeeNumber :: string
  GithubStar :: string

text \<open>\<open>models.EmployeeDepartment\<close>; \<open>DeptFullLevelNames\<close> is the department
  path as \<open>GetDeptFullLevelNamesAsSlice\<close> returns it, root first.\<close>

record EmployeeDepartment =
  empEmployeeNumber :: string
  DeptFullLevelNames :: "string list"

datatype detail_value = DBool bool | DString string | DInt "int option"

record PermissionAudit =
  paOperation :: permission_operation
  paTargetType :: target_type
  paTargetIdentifier :: string
  paDetails :: "(string \<times> detail_value) list"

text \<open>The state the two permission services work on: the user table of the
  auth database, the tables of the service database, and the calls received by
  the gateway's permission endpoints, latest last.\<close>

record pstate =
  auth_users :: "UserInfo list"
  employee_department :: "EmployeeDepartment list"
  quota_check_settings :: "Setting list"
  effective_quota_check_settings :: "EffectiveSetting list"
  star_check_settings :: "Setting list"
  effective_star_check_settings :: "EffectiveSetting list"
  permission_audit :: "PermissionAudit list"
  higress_quota_check :: "(string \<times> bool) list"
  higress_star_check :: "(string \<times> bool) list"

text \<open>The injected dependencies of a service: whether a gateway client and a
  user conversion service were supplied.\<close>

record pconfig =
  hasHigressClient :: bool
  hasUserConversionService :: bool

text \<open>\<open>Create\<close> on a table with an auto-increment key.\<close>

definition nextID :: "Setting list \<Rightarrow> int" where
  "nextID table = (if table = [] then 1 else Max (set (map ID table)) + 1)"

text \<open>\<open>Save\<close> rewrites the row with the record's primary key.\<close>

definition saveSetting :: "Setting \<Rightarrow> Setting list \<Rightarrow> Setting list" where
  "saveSetting setting table = map (\<lambda>r. if ID r = ID setting then setting else r) table"

definition saveEffective :: "EffectiveSetting \<Rightarrow> EffectiveSetting list \<Rightarrow> EffectiveSetting list" where
  "saveEffective e table = map (\<lambda>r. if effUserID r = effUserID e then e else r) table"

definition recordAudit ::
  "faults \<Rightarrow> permission_operation \<Rightarrow> target_type \<Rightarrow> string \<Rightarrow> (string \<times> detail_value) list
    \<Rightarrow> pstate \<Rightarrow> pstate" where
  "recordAudit F operation targetType targetIdentifier details st =
     (if F DbCreatePermissionAudit then st
      else st\<lparr>permission_audit := permission_audit st @
             [\<lparr>paOperation = operation, paTargetType = targetType,
               paTargetIdentifier = targetIdentifier, paDetails = details\<rparr>]\<rparr>)"

subsection \<open>Quota-check family\<close>

text \<open>The department loop of \<open>calculateEffectiveQuotaCheckSetting\<close>: the
  argument is \<open>i + 1\<close> for the loop index \<open>i\<close>, which runs from
  \<open>len(departments) - 1\<close> down to \<open>0\<close>.\<close>

fun quotaCheckDeptLoop :: "Setting list \<Rightarrow> string list \<Rightarrow> nat \<Rightarrow> bool \<times> int option" where
  "quotaCheckDeptLoop settings departments 0 = (False, None)"
| "quotaCheckDeptLoop settings departments (Suc i) =
     (case find (\<lambda>s. TargetType s = TargetTypeDepartment \<and> TargetIdentifier s = departments ! i)
             settings of
        Some deptSetting \<Rightarrow> (Enabled deptSetting, Some (ID deptSetting))
      | None \<Rightarrow> quotaCheckDeptLoop settings departments i)"

definition calculateEffectiveQuotaCheckSetting ::
  "pstate \<Rightarrow> string \<Rightarrow> string list \<Rightarrow> bool \<times> int option" where
  "calculateEffectiveQuotaCheckSetting st userID departments =
     (case find (\<lambda>s. TargetType s = TargetTypeUser \<and> TargetIdentifier s = userID)
             (quota_check_settings st) of
        Some userSetting \<Rightarrow> (Enabled userSetting, Some (ID userSetting))
      | None \<Rightarrow> quotaCheckDeptLoop (quota_check_settings st) departments (length departments))"

text \<open>\<open>UserConversionService.GetUserIDByEmployeeNumber\<close>, reached through
  \<open>ConvertEmployeeNumberToUserID\<close>.\<close>

definition ConvertEmployeeNumberToUserID :: "pconfig \<Rightarrow> pstate \<Rightarrow> string \<Rightarrow> string option" where
  "ConvertEmployeeNumberToUserID cfg st employeeNumber =
     (if \<not> hasUserConversionService cfg then None
      else if employeeNumber = [] then None
      else map_option userInfoID (find (\<lambda>u. EmployeeNumber u = employeeNumber) (auth_users st)))"

definition UpdateEmployeeQuotaCheckPermissions ::
  "pconfig \<Rightarrow> faults \<Rightarrow> pstate \<Rightarrow> string \<Rightarrow> error option \<times> pstate" where
  "UpdateEmployeeQuotaCheckPermissions cfg F st employeeNumber =
     (case find (\<lambda>u. EmployeeNumber u = employeeNumber) (auth_users st) of
        None \<Rightarrow> (None, st)
      | Some user \<Rightarrow>
     (let userID = userInfoID user;
          departments =
            (case find (\<lambda>e. empEmployeeNumber e = employeeNumber) (employee_department st) of
               None \<Rightarrow> []
             | Some employee \<Rightarrow> DeptFullLevelNames employee);
          existing = find (\<lambda>e. effUserID e = userID) (effective_quota_check_settings st);
          currentEnabled = (case existing of Some e \<Rightarrow> effEnabled e | None \<Rightarrow> False);
          (newEnabled, settingID) = calculateEffectiveQuotaCheckSetting st userID departments;
          settingChanged = (currentEnabled \<noteq> newEnabled);
          isNewUser = (existing = None);
          hasNewSetting = (settingID \<noteq> None);
          written =
            (case existing of
               Some e \<Rightarrow>
                 if F DbSaveEffective
                 then Inl (Failed ''failed to update effective quota check setting'')
                 else Inr (saveEffective (e\<lparr>effEnabled := newEnabled, effSettingID := settingID\<rparr>)
                             (effective_quota_check_settings st))
             | None \<Rightarrow>
                 if F DbCreateEffective
                 then Inl (Failed ''failed to create effective quota check setting'')
                 else Inr (effective_quota_check_settings st @
                             [\<lparr>effUserID = userID, effEnabled = newEnabled,
                               effSettingID = settingID\<rparr>]))
      in case written of
           Inl e \<Rightarrow> (Some e, st)
         | Inr table \<Rightarrow>
        (let st1 = st\<lparr>effective_quota_check_settings := table\<rparr>;
             shouldNotify = ((\<not> isNewUser \<and> settingChanged) \<or> (isNewUser \<and> hasNewSetting));
             notificationReason =
               (if \<not> isNewUser \<and> settingChanged then
                  (if currentEnabled \<and> \<not> newEnabled then ''quota_check_disabled''
                   else if \<not> currentEnabled \<and> newEnabled then ''quota_check_enabled''
                   else [])
                else if isNewUser \<and> hasNewSetting then
                  (if newEnabled then ''new_user_quota_check_enabled''
                   else ''new_user_quota_check_disabled'')
                else []);
             st2 =
               (if shouldNotify \<and> hasHigressClient cfg then
                  (case ConvertEmployeeNumberToUserID cfg st1 employeeNumber of
                     None \<Rightarrow> st1
                   | Some uid \<Rightarrow>
                       if F HigressSet then st1
                       else st1\<lparr>higress_quota_check := higress_quota_check st1 @ [(uid, newEnabled)]\<rparr>)
                else st1)
         in (None,
             recordAudit F OperationQuotaCheckSettingUpdate TargetTypeUser employeeNumber
               [(''employee_number'', DString employeeNumber),
                (''enabled'', DBool newEnabled),
                (''setting_changed'', DBool settingChanged),
                (''reason'', DString notificationReason)] st2))))"

definition SetUserQuotaCheckSetting ::
  "pconfig \<Rightarrow> faults \<Rightarrow> pstate \<Rightarrow> string \<Rightarrow> bool \<Rightarrow> error option \<times> pstate" where
  "SetUserQuotaCheckSetting cfg F st userID enabled =
     (case find (\<lambda>u. userInfoID u = userID) (auth_users st) of
        None \<Rightarrow> (Some (UserNotFound userID), st)
      | Some user \<Rightarrow>
     (let saved =
            (case find (\<lambda>s. TargetType s = TargetTypeUser \<and> TargetIdentifier s = userID)
                    (quota_check_settings st) of
               Some setting \<Rightarrow>
                 if Enabled setting = enabled then Inl None
                 else if F DbSaveSetting
                 then Inl (Some (DatabaseError ''update quota check setting''))
                 else Inr (saveSetting (setting\<lparr>Enabled := enabled\<rparr>) (quota_check_settings st))
             | None \<Rightarrow>
                 if F DbCreateSetting
                 then Inl (Some (DatabaseError ''create quota check setting''))
                 else Inr (quota_check_settings st @
                             [\<lparr>ID = nextID (quota_check_settings st), TargetType = TargetTypeUser,
                               TargetIdentifier = userID, Enabled = enabled\<rparr>]))
      in case saved of
           Inl r \<Rightarrow> (r, st)
         | Inr table \<Rightarrow>
        (let st1 = st\<lparr>quota_check_settings := table\<rparr>;
             st2 = snd (UpdateEmployeeQuotaCheckPermissions cfg F st1 (EmployeeNumber user))
         in (None,
             recordAudit F OperationQuotaCheckSet TargetTypeUser userID
               [(''user_id'', DString userID), (''enabled'', DBool enabled)] st2))))"

subsection \<open>Star-check family\<close>

fun starCheckDeptLoop :: "Setting list \<Rightarrow> string list \<Rightarrow> nat \<Rightarrow> bool \<times> int option" where
  "starCheckDeptLoop settings departments 0 = (False, None)"
| "starCheckDeptLoop settings departments (Suc i) =
     (case find (\<lambda>s. TargetType s = TargetTypeDepartment \<and> TargetIdentifier s = departments ! i)
             settings of
        Some deptSetting \<Rightarrow> (Enabled deptSetting, Some (ID deptSetting))
      | None \<Rightarrow> starCheckDeptLoop settings departments i)"

definition calculateEffectiveStarCheckSetting ::
  "pstate \<Rightarrow> string \<Rightarrow> string list \<Rightarrow> bool \<times> int option" where
  "calculateEffectiveStarCheckSetting st userID departments =
     (case find (\<lambda>s. TargetType s = TargetTypeUser \<and> TargetIdentifier s = userID)
             (star_check_settings st) of
        Some userSetting \<Rightarrow> (Enabled userSetting, Some (ID userSetting))
      | None \<Rightarrow> starCheckDeptLoop (star_check_settings st) departments (length departments))"

definition UpdateEmployeeStarCheckPermissions ::
  "pconfig \<Rightarrow> faults \<Rightarrow> pstate \<Rightarrow> string \<Rightarrow> error option \<times> pstate" where
  "UpdateEmployeeStarCheckPermissions cfg F st employeeNumber =
     (case find (\<lambda>u. EmployeeNumber u = employeeNumber) (auth_users st) of
        None \<Rightarrow> (None, st)
      | Some user \<Rightarrow>
     (let userID = userInfoID user;
          departments =
            (case find (\<lambda>e. empEmployeeNumber e = employeeNumber) (employee_department st) of
               None \<Rightarrow> []
             | Some employee \<Rightarrow> DeptFullLevelNames employee);
          existing = find (\<lambda>e. effUserID e = userID) (effective_star_check_settings st);
          currentEnabled = (case existing of Some e \<Rightarrow> effEnabled e | None \<Rightarrow> False);
          (newEnabled, settingID) = calculateEffectiveStarCheckSetting st userID departments;
          settingChanged = (currentEnabled \<noteq> newEnabled);
          isNewUser = (existing = None);
          hasCurrentSetting = (\<not> currentEnabled);
          hasNewSetting = (settingID \<noteq> None);
          written =
            (case existing of
               Some e \<Rightarrow>
                 if F DbSaveEffective
                 then Inl (Failed ''failed to update effective star check setting'')
                 else Inr (saveEffective (e\<lparr>effEnabled := newEnabled, effSettingID := settingID\<rparr>)
                             (effective_star_check_settings st))
             | None \<Rightarrow>
                 if F DbCreateEffective
                 then Inl (Failed ''failed to create effective star check setting'')
                 else Inr (effective_star_check_settings st @
                             [\<lparr>effUserID = userID, effEnabled = newEnabled,
                               effSettingID = settingID\<rparr>]))
      in case written of
           Inl e \<Rightarrow> (Some e, st)
         | Inr table \<Rightarrow>
        (let st1 = st\<lparr>effective_star_check_settings := table\<rparr>;
             shouldNotify = ((\<not> isNewUser \<and> settingChanged) \<or> (isNewUser \<and> hasNewSetting));
             notificationReason =
               (if \<not> isNewUser \<and> settingChanged then
                  (if currentEnabled \<and> \<not> newEnabled then ''star_check_disabled''
                   else if \<not> currentEnabled \<and> newEnabled then ''star_check_enabled''
                   else [])
                else if isNewUser \<and> hasNewSetting then
                  (if newEnabled then ''new_user_star_check_enabled''
                   else ''new_user_star_check_disabled'')
                else []);
             st2 =
               (if shouldNotify \<and> hasHigressClient cfg then
                  (case find (\<lambda>u. EmployeeNumber u = employeeNumber) (auth_users st1) of
                     None \<Rightarrow> st1
                   | Some u \<Rightarrow>
                       if F HigressSet then st1
                       else st1\<lparr>higress_star_check :=
                                  higress_star_check st1 @ [(userInfoID u, newEnabled)]\<rparr>)
                else st1)
         in (None,
             recordAudit F OperationStarCheckSettingUpdate TargetTypeUser employeeNumber
               [(''employee_number'', DString employeeNumber),
                (''previous_enabled'', DBool currentEnabled),
                (''new_enabled'', DBool newEnabled),
                (''setting_id'', DInt settingID),
                (''setting_changed'', DBool settingChanged),
                (''is_new_user'', DBool isNewUser),
                (''has_current_setting'', DBool hasCurrentSetting),
                (''has_new_setting'', DBool hasNewSetting),
                (''higress_notified'', DBool shouldNotify),
                (''notification_reason'', DString notificationReason)] st2))))"

definition SetUserStarCheckSetting ::
  "pconfig \<Rightarrow> faults \<Rightarrow> pstate \<Rightarrow> string \<Rightarrow> bool \<Rightarrow> error option \<times> pstate" where
  "SetUserStarCheckSetting cfg F st userID enabled =
     (case find (\<lambda>u. userInfoID u = userID) (auth_users st) of
        None \<Rightarrow> (Some (UserNotFound userID), st)
      | Some user \<Rightarrow>
     (let saved =
            (case find (\<lambda>s. TargetType s = TargetTypeUser \<and> TargetIdentifier s = userID)
                    (star_check_settings st) of
               Some setting \<Rightarrow>
                 if Enabled setting = enabled then Inl None
                 else if F DbSaveSetting
                 then Inl (Some (DatabaseError ''update star check setting''))
                 else Inr (saveSetting (setting\<lparr>Enabled := enabled\<rparr>) (star_check_settings st))
             | None \<Rightarrow>
                 if F DbCreateSetting
                 then Inl (Some (DatabaseError ''create star check setting''))
                 else Inr (star_check_settings st @
                             [\<lparr>ID = nextID (star_check_settings st), TargetType = TargetTypeUser,
                               TargetIdentifier = userID, Enabled = enabled\<rparr>]))
      in case saved of
           Inl r \<Rightarrow> (r, st)
         | Inr table \<Rightarrow>
        (let st1 = st\<lparr>star_check_settings := table\<rparr>;
             st2 = snd (UpdateEmployeeStarCheckPermissions cfg F st1 (EmployeeNumber user))
         in (None,
             recordAudit F OperationStarCheckSet TargetTypeUser userID
               [(''user_id'', DString userID), (''enabled'', DBool enabled)] st2))))"

subsection \<open>The projection, as the specification words it\<close>

text \<open>The user-level setting if there is one; otherwise the first hit among
  the departments taken from the most specific (last of the path) to the most
  general (first of the path); otherwise disabled, with no source.\<close>

definition userLevel :: "Setting list \<Rightarrow> string \<Rightarrow> Setting option" where
  "userLevel settings u =
     find (\<lambda>s. TargetType s = TargetTypeUser \<and> TargetIdentifier s = u) settings"

definition departmentLevel :: "Setting list \<Rightarrow> string \<Rightarrow> Setting option" where
  "departmentLevel settings d =
     find (\<lambda>s. TargetType s = TargetTypeDepartment \<and> TargetIdentifier s = d) settings"

definition projection :: "Setting list \<Rightarrow> string \<Rightarrow> string list \<Rightarrow> bool \<times> int option" where
  "projection settings u path =
     (case userLevel settings u of
        Some s \<Rightarrow> (Enabled s, Some (ID s))
      | None \<Rightarrow>
          (case List.map_filter (departmentLevel settings) (rev path) of
             s # rest \<Rightarrow> (Enabled s, Some (ID s))
           | [] \<Rightarrow> (False, None)))"

subsection \<open>A small permission state\<close>

definition examplePermissions :: pstate where
  "examplePermissions =
     \<lparr>auth_users = [\<lparr>userInfoID = ''u1'', EmployeeNumber = ''e1'', GithubStar = []\<rparr>],
      employee_department =
        [\<lparr>empEmployeeNumber = ''e1'', DeptFullLevelNames = [''corp'', ''eng'', ''ai'']\<rparr>],
      quota_check_settings =
        [\<lparr>ID = 1, TargetType = TargetTypeUser, TargetIdentifier = ''u1'', Enabled = True\<rparr>,
         \<lparr>ID = 2, TargetType = TargetTypeDepartment, TargetIdentifier = ''eng'', Enabled = True\<rparr>,
         \<lparr>ID = 3, TargetType = TargetTypeDepartment, TargetIdentifier = ''ai'', Enabled = False\<rparr>],
      effective_quota_check_settings = [],
      star_check_settings =
        [\<lparr>ID = 1, TargetType = TargetTypeUser, TargetIdentifier = ''u1'', Enabled = False\<rparr>,
         \<lparr>ID = 2, TargetType = TargetTypeDepartment, TargetIdentifier = ''corp'', Enabled = True\<rparr>],
      effective_star_check_settings = [],
      permission_audit = [],
      higress_quota_check = [],
      higress_star_check = []\<rparr>"

definition exampleConfig :: pconfig where
  "exampleConfig = \<lparr>hasHigressClient = True, hasUserConversionService = True\<rparr>"

section \<open>Quota engine: ledger, vouchers and environment\<close>

record AuthUser =
  authID :: string
  authName :: string
  authPhone :: string
  authGithub :: string

record VoucherQuotaItem =
  vAmount :: real
  vExpiryDate :: time

record VoucherData =
  GiverID :: string
  GiverName :: string
  GiverPhone :: string
  GiverGithub :: string
  GiverGithubStar :: string
  ReceiverID :: string
  vQuotaList :: "VoucherQuotaItem list"

text \<open>Modelled from the spec: the operation and item-status constants of the
  audit (\<open>models.OperationRecharge\<close>, \<open>models.AuditStatusSuccess\<close>, ...) are
  declared outside the sources at hand; the data model names the operations
  RECHARGE, TRANSFER_OUT and TRANSFER_IN.\<close>

datatype audit_operation = OperationRecharge | OperationTransferOut | OperationTransferIn

datatype audit_status = AuditStatusSuccess | AuditStatusFailed | AuditStatusExpired

record QuotaAuditDetailItem =
  dAmount :: real
  dExpiryDate :: time
  dStatus :: audit_status
  dFailureReason :: string

record QuotaAuditSummary =
  TotalAmount :: real
  TotalItems :: nat
  SuccessfulItems :: nat
  FailedItems :: nat
  ExpiredItems :: nat
  EarliestExpiryDate :: time

record QuotaAuditDetails =
  detOperation :: audit_operation
  Summary :: QuotaAuditSummary
  Items :: "QuotaAuditDetailItem list"

text \<open>\<open>models.QuotaAudit\<close>; the details column holds the marshalled
  \<open>QuotaAuditDetails\<close>, kept here unmarshalled.\<close>

record QuotaAudit =
  auUserID :: string
  auAmount :: real
  auOperation :: audit_operation
  auVoucherCode :: string
  auRelatedUser :: string
  auStrategyName :: string
  auExpiryDate :: time
  auDetails :: QuotaAuditDetails

record VoucherRedemption =
  rVoucherCode :: string
  rReceiverID :: string

text \<open>The service database, and the world a call of the engine acts on: the
  database, the user table of the auth database and the gateway.  A
  transaction works on a copy of the database; commit installs the copy,
  rollback drops it.  What a call did to the gateway stays done.  The source
  ignores the result of \<open>Commit\<close>; it is taken to succeed.\<close>

record store =
  tblQuota :: "Quota list"
  tblQuotaAudit :: "QuotaAudit list"
  tblVoucherRedemption :: "VoucherRedemption list"

record world =
  ledger :: store
  authdb :: "UserInfo list"
  aigateway :: gateway

text \<open>What the service is configured with: the clock reading of the call, the
  voucher codec (a black box), whether a gateway client for starred projects
  was injected, and the star-check policy.\<close>

record env =
  envNow :: time
  ValidateAndDecodeVoucher :: "string \<Rightarrow> VoucherData option"
  GenerateVoucher :: "VoucherData \<Rightarrow> string option"
  hasAiGatewayClient :: bool
  GithubStarCheckEnabled :: bool
  GithubStarCheckRequiredRepo :: string

text \<open>The zero value of \<open>time.Time\<close>: 1 January of year 1, 00:00:00 UTC.\<close>

definition zeroTime :: time where
  "zeroTime = - 62135596800"

text \<open>An update through \<open>tx.Model(&row)\<close> rewrites the row that \<open>First\<close>
  returned: the earliest row that satisfies the condition.\<close>

fun updateFirst :: "('a \<Rightarrow> bool) \<Rightarrow> ('a \<Rightarrow> 'a) \<Rightarrow> 'a list \<Rightarrow> 'a list" where
  "updateFirst P f [] = []"
| "updateFirst P f (x # xs) = (if P x then f x # xs else x # updateFirst P f xs)"

text \<open>\<open>%d\<close> of \<open>fmt.Sprintf\<close> for a count: its decimal digits.\<close>

definition digitChar :: "nat \<Rightarrow> char" where
  "digitChar d = ''0123456789'' ! d"

fun showNat :: "nat \<Rightarrow> string" where
  "showNat n =
     (if n < 10 then [digitChar n]
      else showNat (n div 10) @ [digitChar (n mod 10)])"

section \<open>TransferIn\<close>

definition TransferStatusSuccess :: string where
  "TransferStatusSuccess = ''SUCCESS''"

definition TransferStatusPartialSuccess :: string where
  "TransferStatusPartialSuccess = ''PARTIAL_SUCCESS''"

definition TransferStatusFailed :: string where
  "TransferStatusFailed = ''FAILED''"

definition TransferStatusAlreadyRedeemed :: string where
  "TransferStatusAlreadyRedeemed = ''ALREADY_REDEEMED''"

definition TransferFailureReasonExpired :: string where
  "TransferFailureReasonExpired = ''EXPIRED''"

definition TransferFailureReasonPending :: string where
  "TransferFailureReasonPending = ''PENDING''"

record TransferQuotaResult =
  resAmount :: real
  resExpiryDate :: time
  IsExpired :: bool
  Success :: bool
  FailureReason :: "string option"

text \<open>\<open>TransferInResponse\<close>.  A field the source leaves out of a struct
  literal has its zero value: the empty string, the empty list, \<open>0\<close>, and
  \<open>None\<close> for the operation.\<close>

record TransferInResponse =
  respGiverID :: string
  respGiverName :: string
  respGiverPhone :: string
  respGiverGithub :: string
  respReceiverID :: string
  respQuotaList :: "TransferQuotaResult list"
  respVoucherCode :: string
  respOperation :: "audit_operation option"
  respAmount :: real
  respStatus :: string
  respMessage :: string

definition statusOnly :: "string \<Rightarrow> string \<Rightarrow> TransferInResponse" where
  "statusOnly status message =
     \<lparr>respGiverID = [], respGiverName = [], respGiverPhone = [], respGiverGithub = [],
      respReceiverID = [], respQuotaList = [], respVoucherCode = [], respOperation = None,
      respAmount = 0, respStatus = status, respMessage = message\<rparr>"

text \<open>Modelled from the spec: the table of voucher redemptions is declared
  outside the sources at hand; it has a unique index on the voucher code, so
  \<open>Create\<close> fails when the code is already there.\<close>

definition createRedemption ::
  "faults \<Rightarrow> VoucherRedemption \<Rightarrow> VoucherRedemption list \<Rightarrow> VoucherRedemption list option" where
  "createRedemption F redemption table =
     (if F DbCreateRedemption \<or> rVoucherCode redemption \<in> set (map rVoucherCode table) then None
      else Some (table @ [redemption]))"

text \<open>The local variables of the item loop, with the quota table of the
  transaction.\<close>

record transfer_acc =
  txQuota :: "Quota list"
  totalAmount :: real
  successCount :: nat
  quotaResults :: "TransferQuotaResult list"
  earliestExpiryDate :: time
  hasValidQuota :: bool

text \<open>The bookkeeping shared by the two branches that credit an item.\<close>

definition credited :: "VoucherQuotaItem \<Rightarrow> TransferQuotaResult \<Rightarrow> Quota list \<Rightarrow> transfer_acc \<Rightarrow> transfer_acc" where
  "credited quotaItem quotaResult table acc =
     acc\<lparr>txQuota := table,
         totalAmount := totalAmount acc + vAmount quotaItem,
         successCount := successCount acc + 1,
         quotaResults := quotaResults acc @ [quotaResult\<lparr>Success := True\<rparr>],
         earliestExpiryDate :=
           (if \<not> hasValidQuota acc \<or> vExpiryDate quotaItem < earliestExpiryDate acc
            then vExpiryDate quotaItem else earliestExpiryDate acc),
         hasValidQuota := True\<rparr>"

text \<open>One pass of the loop body, for item \<open>i\<close>.  A failed \<open>First\<close> is taken
  for an absent row, as the source does.\<close>

definition transferInItem ::
  "faults \<Rightarrow> time \<Rightarrow> string \<Rightarrow> nat \<Rightarrow> VoucherQuotaItem \<Rightarrow> transfer_acc \<Rightarrow> transfer_acc" where
  "transferInItem F now receiverID i quotaItem acc =
     (let isExpired = (now > vExpiryDate quotaItem);
          quotaResult = \<lparr>resAmount = vAmount quotaItem, resExpiryDate = vExpiryDate quotaItem,
                         IsExpired = isExpired, Success = False, FailureReason = None\<rparr>;
          matches = (\<lambda>q. UserID q = receiverID \<and> ExpiryDate q = vExpiryDate quotaItem
                          \<and> Status q = StatusValid)
      in if \<not> isExpired then
           (case (if F (DbFindQuota i) then None else find matches (txQuota acc)) of
              None \<Rightarrow>
                if F (DbCreateQuota i) then
                  acc\<lparr>quotaResults := quotaResults acc @
                        [quotaResult\<lparr>FailureReason := Some TransferFailureReasonPending\<rparr>]\<rparr>
                else
                  credited quotaItem quotaResult
                    (txQuota acc @ [\<lparr>UserID = receiverID, Amount = vAmount quotaItem,
                                     ExpiryDate = vExpiryDate quotaItem, Status = StatusValid\<rparr>]) acc
            | Some existingQuota \<Rightarrow>
                if F (DbUpdateQuota i) then
                  acc\<lparr>quotaResults := quotaResults acc @
                        [quotaResult\<lparr>FailureReason := Some TransferFailureReasonPending\<rparr>]\<rparr>
                else
                  credited quotaItem quotaResult
                    (updateFirst matches
                       (\<lambda>q. q\<lparr>Amount := Amount existingQuota + vAmount quotaItem\<rparr>) (txQuota acc)) acc)
         else
           acc\<lparr>quotaResults := quotaResults acc @
                 [quotaResult\<lparr>FailureReason := Some TransferFailureReasonExpired\<rparr>]\<rparr>)"

fun transferInLoop ::
  "faults \<Rightarrow> time \<Rightarrow> string \<Rightarrow> nat \<Rightarrow> VoucherQuotaItem list \<Rightarrow> transfer_acc \<Rightarrow> transfer_acc" where
  "transferInLoop F now receiverID i [] acc = acc"
| "transferInLoop F now receiverID i (quotaItem # rest) acc =
     transferInLoop F now receiverID (Suc i) rest (transferInItem F now receiverID i quotaItem acc)"

text \<open>The item of the audit details written for one result.\<close>

definition auditItem :: "TransferQuotaResult \<Rightarrow> QuotaAuditDetailItem" where
  "auditItem result =
     (if IsExpired result then
        \<lparr>dAmount = resAmount result, dExpiryDate = resExpiryDate result,
         dStatus = AuditStatusExpired, dFailureReason = ''Quota expired''\<rparr>
      else if Success result then
        \<lparr>dAmount = resAmount result, dExpiryDate = resExpiryDate result,
         dStatus = AuditStatusSuccess, dFailureReason = []\<rparr>
      else
        \<lparr>dAmount = resAmount result, dExpiryDate = resExpiryDate result,
         dStatus = AuditStatusFailed,
         dFailureReason = (case FailureReason result of Some r \<Rightarrow> r | None \<Rightarrow> [])\<rparr>)"

definition transferInAudit ::
  "string \<Rightarrow> string \<Rightarrow> VoucherData \<Rightarrow> transfer_acc \<Rightarrow> QuotaAudit" where
  "transferInAudit receiverID voucherCode voucherData acc =
     \<lparr>auUserID = receiverID, auAmount = totalAmount acc, auOperation = OperationTransferIn,
      auVoucherCode = voucherCode, auRelatedUser = GiverID voucherData, auStrategyName = [],
      auExpiryDate = earliestExpiryDate acc,
      auDetails =
        \<lparr>detOperation = OperationTransferIn,
         Summary =
           \<lparr>TotalAmount = totalAmount acc,
            TotalItems = length (vQuotaList voucherData),
            SuccessfulItems = successCount acc,
            FailedItems = length (filter (\<lambda>r. \<not> IsExpired r \<and> \<not> Success r) (quotaResults acc)),
            ExpiredItems = length (filter IsExpired (quotaResults acc)),
            EarliestExpiryDate = earliestExpiryDate acc\<rparr>,
         Items = map auditItem (quotaResults acc)\<rparr>\<rparr>"

text \<open>The overall status and message, from \<open>successCount\<close>, \<open>totalQuotas\<close>
  and \<open>expiredCount\<close>.\<close>

definition overallStatus :: "nat \<Rightarrow> nat \<Rightarrow> nat \<Rightarrow> string \<times> string" where
  "overallStatus nSuccess nTotal nExpired =
     (if nSuccess = 0 then (TransferStatusFailed, ''All quota transfers failed'')
      else if nSuccess = nTotal then
        (TransferStatusSuccess, ''All quota transfers completed successfully'')
      else if nSuccess > 0 \<and> nExpired > 0 then
        (TransferStatusPartialSuccess,
         showNat nSuccess @ '' of '' @ showNat nTotal
           @ '' quota transfers completed successfully, '' @ showNat nExpired @ '' expired'')
      else
        (TransferStatusPartialSuccess,
         showNat nSuccess @ '' of '' @ showNat nTotal
           @ '' quota transfers completed successfully''))"

text \<open>\<open>TransferIn\<close> returns a response and an error, as the Go function
  does, and the world it leaves.\<close>

definition TransferIn ::
  "env \<Rightarrow> faults \<Rightarrow> world \<Rightarrow> AuthUser \<Rightarrow> string
    \<Rightarrow> (TransferInResponse option \<times> error option) \<times> world" where
  "TransferIn E F w receiver voucherCode =
     (case ValidateAndDecodeVoucher E voucherCode of
        None \<Rightarrow> ((Some (statusOnly TransferStatusFailed ''Invalid voucher code''), None), w)
      | Some voucherData \<Rightarrow>
     if ReceiverID voucherData \<noteq> authID receiver then
       ((Some (statusOnly TransferStatusFailed ''Voucher is not for this user''), None), w)
     else if \<not> F DbFindRedemption
             \<and> find (\<lambda>r. rVoucherCode r = voucherCode) (tblVoucherRedemption (ledger w)) \<noteq> None then
       ((Some \<lparr>respGiverID = GiverID voucherData, respGiverName = GiverName voucherData,
               respGiverPhone = GiverPhone voucherData, respGiverGithub = GiverGithub voucherData,
               respReceiverID = authID receiver, respQuotaList = [],
               respVoucherCode = voucherCode, respOperation = Some OperationTransferIn,
               respAmount = 0, respStatus = TransferStatusAlreadyRedeemed,
               respMessage = ''Voucher has already been redeemed''\<rparr>, None), w)
     else
     (case createRedemption F \<lparr>rVoucherCode = voucherCode, rReceiverID = authID receiver\<rparr>
             (tblVoucherRedemption (ledger w)) of
        None \<Rightarrow>
          ((Some (statusOnly TransferStatusFailed ''Failed to record voucher redemption''), None), w)
      | Some redemptions \<Rightarrow>
     (let acc = transferInLoop F (envNow E) (authID receiver) 0 (vQuotaList voucherData)
                  \<lparr>txQuota = tblQuota (ledger w), totalAmount = 0, successCount = 0,
                   quotaResults = [], earliestExpiryDate = zeroTime, hasValidQuota = False\<rparr>
      in if hasValidQuota acc \<and> F MarshalDetails then
           ((Some (statusOnly TransferStatusFailed ''Failed to marshal audit details''), None), w)
         else if hasValidQuota acc \<and> F DbCreateAudit then
           ((Some (statusOnly TransferStatusFailed ''Failed to create audit record''), None), w)
         else
        (let audits =
               (if hasValidQuota acc
                then tblQuotaAudit (ledger w) @
                       [transferInAudit (authID receiver) voucherCode voucherData acc]
                else tblQuotaAudit (ledger w))
         in case (if totalAmount acc > 0
                  then deltaQuotaInAiGateway F (aigateway w) (authID receiver) (totalAmount acc)
                  else Inr (aigateway w)) of
              Inl e \<Rightarrow>
                ((Some (statusOnly TransferStatusFailed ''Failed to update AiGateway quota''), None), w)
            | Inr gw1 \<Rightarrow>
           (let gw2 =
                  (if GiverGithubStar voucherData \<noteq> [] \<and> hasAiGatewayClient E \<and> \<not> F GwSetStar
                   then gw1\<lparr>gwStarred :=
                              (gwStarred gw1)(authID receiver := GiverGithubStar voucherData)\<rparr>
                   else gw1);
                totalQuotas = length (vQuotaList voucherData);
                expiredCount = length (filter IsExpired (quotaResults acc));
                (status, message) = overallStatus (successCount acc) totalQuotas expiredCount
            in ((Some \<lparr>respGiverID = GiverID voucherData, respGiverName = GiverName voucherData,
                       respGiverPhone = GiverPhone voucherData,
                       respGiverGithub = GiverGithub voucherData,
                       respReceiverID = authID receiver, respQuotaList = quotaResults acc,
                       respVoucherCode = voucherCode, respOperation = Some OperationTransferIn,
                       respAmount = totalAmount acc, respStatus = status,
                       respMessage = message\<rparr>, None),
                w\<lparr>ledger := \<lparr>tblQuota = txQuota acc, tblQuotaAudit = audits,
                               tblVoucherRedemption = redemptions\<rparr>,
                  aigateway := gw2\<rparr>))))))"

subsection \<open>A small world for the engine\<close>

definition noFaults :: faults where
  "noFaults = (\<lambda>s. False)"

definition onlyFault :: "site \<Rightarrow> faults" where
  "onlyFault s = (\<lambda>x. x = s)"

definition exampleGateway :: gateway where
  "exampleGateway = \<lparr>gwTotal = (\<lambda>u. if u = ''giver'' then 100 else 0),
                      gwUsed = (\<lambda>u. if u = ''giver'' then 30 else 0),
                      gwStarred = (\<lambda>u. [])\<rparr>"

definition exampleWorld :: world where
  "exampleWorld =
     \<lparr>ledger =
        \<lparr>tblQuota = [\<lparr>UserID = ''giver'', Amount = 40, ExpiryDate = 1000, Status = StatusValid\<rparr>,
                  \<lparr>UserID = ''giver'', Amount = 60, ExpiryDate = 5000, Status = StatusValid\<rparr>],
         tblQuotaAudit = [],
         tblVoucherRedemption = [\<lparr>rVoucherCode = ''used-voucher'', rReceiverID = ''other''\<rparr>]\<rparr>,
      authdb = [\<lparr>userInfoID = ''giver'', EmployeeNumber = ''e1'', GithubStar = ''org/repo''\<rparr>],
      aigateway = exampleGateway\<rparr>"

definition exampleReceiver :: AuthUser where
  "exampleReceiver = \<lparr>authID = ''receiver'', authName = ''R'', authPhone = [], authGithub = []\<rparr>"

definition exampleGiver :: AuthUser where
  "exampleGiver = \<lparr>authID = ''giver'', authName = ''G'', authPhone = [], authGithub = []\<rparr>"

text \<open>A codec that knows three vouchers for the receiver: one with two items,
  one with no item, and one that is already in the redemption table.\<close>

definition exampleVoucher :: "VoucherQuotaItem list \<Rightarrow> VoucherData" where
  "exampleVoucher items =
     \<lparr>GiverID = ''giver'', GiverName = ''G'', GiverPhone = [], GiverGithub = [],
      GiverGithubStar = [], ReceiverID = ''receiver'', vQuotaList = items\<rparr>"

definition exampleDecode :: "string \<Rightarrow> VoucherData option" where
  "exampleDecode code =
     (if code = ''two-items'' then
        Some (exampleVoucher [\<lparr>vAmount = 100, vExpiryDate = 1000\<rparr>,
                              \<lparr>vAmount = 100, vExpiryDate = 5000\<rparr>])
      else if code = ''no-items'' then Some (exampleVoucher [])
      else if code = ''used-voucher'' then
        Some (exampleVoucher [\<lparr>vAmount = 10, vExpiryDate = 5000\<rparr>])
      else None)"

definition exampleEnv :: env where
  "exampleEnv =
     \<lparr>envNow = 2000, ValidateAndDecodeVoucher = exampleDecode,
      GenerateVoucher = (\<lambda>v. Some ''fresh-voucher''), hasAiGatewayClient = True,
      GithubStarCheckEnabled = False, GithubStarCheckRequiredRepo = ''org/repo''\<rparr>"

section \<open>TransferOut\<close>

record TransferQuotaItem =
  tAmount :: real
  tExpiryDate :: time

record TransferOutRequest =
  reqReceiverID :: string
  reqQuotaList :: "TransferQuotaItem list"

record TransferOutResponse =
  outVoucherCode :: string
  outRelatedUser :: string
  outOperation :: audit_operation
  outQuotaList :: "TransferQuotaItem list"

text \<open>\<open>strings.Split(s, ",")\<close> and \<open>strings.TrimSpace\<close>.  Only the ASCII
  white space is modelled.\<close>

fun splitOn :: "char \<Rightarrow> string \<Rightarrow> string list" where
  "splitOn c [] = [[]]"
| "splitOn c (x # xs) =
     (if x = c then [] # splitOn c xs
      else (case splitOn c xs of
              [] \<Rightarrow> [[x]]
            | y # ys \<Rightarrow> (x # y) # ys))"

definition isSpace :: "char \<Rightarrow> bool" where
  "isSpace c = (c \<in> set [CHR 0x09, CHR 0x0A, CHR 0x0B, CHR 0x0C, CHR 0x0D, CHR '' ''])"

definition TrimSpace :: "string \<Rightarrow> string" where
  "TrimSpace s = rev (dropWhile isSpace (rev (dropWhile isSpace s)))"

text \<open>The star gate: whether the required repository is among the giver's
  starred projects.\<close>

definition isStar :: "string \<Rightarrow> string \<Rightarrow> bool" where
  "isStar giverGithubStar requiredRepo =
     (TrimSpace requiredRepo \<in> set (map TrimSpace (splitOn CHR '','' giverGithubStar)))"

text \<open>The loop that fills \<open>quotaAvailabilityMap\<close>.  The key of the map is the
  expiry date formatted to the second; dates are instants at second
  precision here, so the date itself is the key.\<close>

fun availabilityLoop :: "real \<Rightarrow> Quota list \<Rightarrow> (time \<rightharpoonup> real) \<Rightarrow> (time \<rightharpoonup> real)" where
  "availabilityLoop remainingUsed [] m = m"
| "availabilityLoop remainingUsed (quota # quotas) m =
     (let (availableFromThisQuota, remainingUsed') =
            (if remainingUsed \<le> 0 then (Amount quota, remainingUsed)
             else if Amount quota > remainingUsed then (Amount quota - remainingUsed, 0)
             else (0, remainingUsed - Amount quota));
          dateKey = ExpiryDate quota
      in availabilityLoop remainingUsed' quotas
           (m(dateKey \<mapsto> (case m dateKey of None \<Rightarrow> 0 | Some a \<Rightarrow> a) + availableFromThisQuota)))"

definition quotaAvailabilityMap :: "world \<Rightarrow> string \<Rightarrow> (time \<rightharpoonup> real)" where
  "quotaAvailabilityMap w giverID =
     availabilityLoop (gwUsed (aigateway w) giverID)
       (findValidQuotas (tblQuota (ledger w)) giverID) Map.empty"

text \<open>The rows a requested item addresses, and their sum as the query
  \<open>COALESCE(SUM(amount), 0)\<close> gives it.\<close>

definition lotOf :: "string \<Rightarrow> time \<Rightarrow> Quota \<Rightarrow> bool" where
  "lotOf giverID expiry q =
     (UserID q = giverID \<and> ExpiryDate q = expiry \<and> Status q = StatusValid)"

definition totalQuotaAmount :: "Quota list \<Rightarrow> string \<Rightarrow> time \<Rightarrow> real" where
  "totalQuotaAmount table giverID expiry = sum_list (map Amount (filter (lotOf giverID expiry) table))"

text \<open>The validation loop: the first item that fails a check ends the call.\<close>

fun validateLoop ::
  "faults \<Rightarrow> (time \<rightharpoonup> real) \<Rightarrow> Quota list \<Rightarrow> string \<Rightarrow> nat \<Rightarrow> TransferQuotaItem list
    \<Rightarrow> error option" where
  "validateLoop F m table giverID i [] = None"
| "validateLoop F m table giverID i (quotaItem # rest) =
     (case m (tExpiryDate quotaItem) of
        None \<Rightarrow> Some (QuotaNotFound (tExpiryDate quotaItem))
      | Some available \<Rightarrow>
          if available < tAmount quotaItem then
            Some (InsufficientAvailable (tExpiryDate quotaItem) available (tAmount quotaItem))
          else if F (DbSumQuota i) then Some (Failed ''failed to check quota for expiry date'')
          else if totalQuotaAmount table giverID (tExpiryDate quotaItem) < tAmount quotaItem then
            Some (InsufficientQuota (tExpiryDate quotaItem)
                    (totalQuotaAmount table giverID (tExpiryDate quotaItem)) (tAmount quotaItem))
          else validateLoop F m table giverID (Suc i) rest)"

text \<open>The loop that reduces the giver's lots: the update lowers every row of
  the item's expiry date by the item's amount, then the rows left at or below
  zero are deleted.\<close>

fun reduceLoop ::
  "faults \<Rightarrow> string \<Rightarrow> nat \<Rightarrow> TransferQuotaItem list \<Rightarrow> Quota list \<Rightarrow> error + Quota list" where
  "reduceLoop F giverID i [] table = Inr table"
| "reduceLoop F giverID i (quotaItem # rest) table =
     (if F (DbUpdateQuota i) then Inl (Failed ''failed to update quota'')
      else
        (let updated =
               map (\<lambda>q. if lotOf giverID (tExpiryDate quotaItem) q
                         then q\<lparr>Amount := Amount q - tAmount quotaItem\<rparr> else q) table
         in if F (DbDeleteQuota i) then Inl (Failed ''failed to delete zero quota records'')
            else reduceLoop F giverID (Suc i) rest
                   (filter (\<lambda>q. \<not> (lotOf giverID (tExpiryDate quotaItem) q \<and> Amount q \<le> 0))
                      updated)))"

text \<open>The loop that finds the earliest expiry date of the request.\<close>

fun earliestLoop :: "nat \<Rightarrow> TransferQuotaItem list \<Rightarrow> time \<Rightarrow> time" where
  "earliestLoop i [] earliest = earliest"
| "earliestLoop i (item # rest) earliest =
     earliestLoop (Suc i) rest
       (if i = 0 \<or> tExpiryDate item < earliest then tExpiryDate item else earliest)"

text \<open>The giver's starred projects as the auth database has them; empty when
  the giver is not found there.\<close>

definition starredProjectsOf :: "world \<Rightarrow> string \<Rightarrow> string" where
  "starredProjectsOf w giverID =
     (case find (\<lambda>u. userInfoID u = giverID) (authdb w) of
        Some userInfo \<Rightarrow> GithubStar userInfo
      | None \<Rightarrow> [])"


definition transferOutAudit ::
  "string \<Rightarrow> string \<Rightarrow> string \<Rightarrow> TransferQuotaItem list \<Rightarrow> QuotaAudit" where
  "transferOutAudit giverID voucherCode cleanReceiverID items =
     (let total = sum_list (map tAmount items);
          earliest = earliestLoop 0 items zeroTime
      in \<lparr>auUserID = giverID, auAmount = - total, auOperation = OperationTransferOut,
          auVoucherCode = voucherCode, auRelatedUser = cleanReceiverID, auStrategyName = [],
          auExpiryDate = earliest,
          auDetails =
            \<lparr>detOperation = OperationTransferOut,
             Summary = \<lparr>TotalAmount = total, TotalItems = length items,
                        SuccessfulItems = length items, FailedItems = 0, ExpiredItems = 0,
                        EarliestExpiryDate = earliest\<rparr>,
             Items = map (\<lambda>item. \<lparr>dAmount = tAmount item, dExpiryDate = tExpiryDate item,
                                    dStatus = AuditStatusSuccess, dFailureReason = []\<rparr>) items\<rparr>\<rparr>)"

definition TransferOut ::
  "env \<Rightarrow> faults \<Rightarrow> world \<Rightarrow> AuthUser \<Rightarrow> TransferOutRequest
    \<Rightarrow> (error + TransferOutResponse) \<times> world" where
  "TransferOut E F w giver req =
     (if reqReceiverID req = [] then (Inl (ValidationFailed ''receiver_id cannot be empty''), w)
      else if F (GwGetUsed (authID giver)) then (Inl (DatabaseError ''get used quota''), w)
      else if F DbFindQuotas then (Inl (Failed ''failed to get quota list''), w)
      else
     (let m = quotaAvailabilityMap w (authID giver);
          giverGithubStar = starredProjectsOf w (authID giver)
      in if GithubStarCheckEnabled E \<and> \<not> isStar giverGithubStar (GithubStarCheckRequiredRepo E)
         then (Inl (GithubStarRequired (TrimSpace (GithubStarCheckRequiredRepo E))), w)
         else
        (case validateLoop F m (tblQuota (ledger w)) (authID giver) 0 (reqQuotaList req) of
           Some e \<Rightarrow> (Inl e, w)
         | None \<Rightarrow>
        (let cleanReceiverID = TrimSpace (reqReceiverID req);
             voucherData =
               \<lparr>GiverID = authID giver, GiverName = authName giver,
                GiverPhone = authPhone giver, GiverGithub = authGithub giver,
                GiverGithubStar = giverGithubStar, ReceiverID = cleanReceiverID,
                vQuotaList = map (\<lambda>item. \<lparr>vAmount = tAmount item,
                                             vExpiryDate = tExpiryDate item\<rparr>) (reqQuotaList req)\<rparr>
         in case GenerateVoucher E voucherData of
              None \<Rightarrow> (Inl (Failed ''failed to generate voucher''), w)
            | Some voucherCode \<Rightarrow>
           (case reduceLoop F (authID giver) 0 (reqQuotaList req) (tblQuota (ledger w)) of
              Inl e \<Rightarrow> (Inl e, w)
            | Inr table \<Rightarrow>
                if F MarshalDetails then (Inl (Failed ''failed to marshal audit details''), w)
                else if F DbCreateAudit then (Inl (Failed ''failed to create audit record''), w)
                else
                  (case deltaQuotaInAiGateway F (aigateway w) (authID giver)
                          (- sum_list (map tAmount (reqQuotaList req))) of
                     Inl e \<Rightarrow> (Inl (Failed ''failed to update AiGateway quota''), w)
                   | Inr gw1 \<Rightarrow>
                       (Inr \<lparr>outVoucherCode = voucherCode, outRelatedUser = cleanReceiverID,
                             outOperation = OperationTransferOut,
                             outQuotaList = reqQuotaList req\<rparr>,
                        w\<lparr>ledger := (ledger w)
                             \<lparr>tblQuota := table,
                              tblQuotaAudit := tblQuotaAudit (ledger w) @
                                [transferOutAudit (authID giver) voucherCode cleanReceiverID
                                   (reqQuotaList req)]\<rparr>,
                          aigateway := gw1\<rparr>)))))))"

text \<open>The availability at an expiry date, as the specification words it: what
  the FIFO deduction of the used amount leaves of the lots of that date.\<close>

definition availableAt :: "real \<Rightarrow> Quota list \<Rightarrow> time \<Rightarrow> real" where
  "availableAt used lots expiry =
     sum_list (map (remainingOf used lots)
                (filter (\<lambda>i. ExpiryDate (lots ! i) = expiry) [0..<length lots]))"

section \<open>ExpireQuotas\<close>





section \<open>MergeQuotaRecords\<close>

record QuotaGroup =
  gUserID :: string
  gExpiryDate :: time
  gStatus :: quota_status
  gTotalAmount :: real
  gRecordCount :: nat

definition inGroup :: "string \<Rightarrow> time \<Rightarrow> quota_status \<Rightarrow> Quota \<Rightarrow> bool" where
  "inGroup userID expiry status q =
     (UserID q = userID \<and> ExpiryDate q = expiry \<and> Status q = status)"

definition groupKey :: "Quota \<Rightarrow> string \<times> time \<times> quota_status" where
  "groupKey q = (UserID q, ExpiryDate q, Status q)"

text \<open>The query \<open>GROUP BY user_id, expiry_date, status HAVING COUNT(*) > 1\<close>,
  the groups in the order of their first rows.\<close>

definition groupOf :: "Quota list \<Rightarrow> string \<times> time \<times> quota_status \<Rightarrow> QuotaGroup" where
  "groupOf table k =
     (case k of (userID, expiry, status) \<Rightarrow>
        \<lparr>gUserID = userID, gExpiryDate = expiry, gStatus = status,
         gTotalAmount = sum_list (map Amount (filter (inGroup userID expiry status) table)),
         gRecordCount = length (filter (inGroup userID expiry status) table)\<rparr>)"

definition findGroups :: "Quota list \<Rightarrow> QuotaGroup list" where
  "findGroups table =
     filter (\<lambda>g. gRecordCount g > 1) (map (groupOf table) (remdups (map groupKey table)))"

fun mergeLoop :: "faults \<Rightarrow> nat \<Rightarrow> QuotaGroup list \<Rightarrow> Quota list \<Rightarrow> error + Quota list" where
  "mergeLoop F i [] table = Inr table"
| "mergeLoop F i (grp # rest) table =
     (if F (DbDeleteGroup i) then Inl (Failed ''failed to delete duplicate quota records'')
      else
        (let deleted = filter (\<lambda>q. \<not> inGroup (gUserID grp) (gExpiryDate grp) (gStatus grp) q)
                         table
         in if gTotalAmount grp > 0 then
              (if F (DbCreateMerged i) then Inl (Failed ''failed to create merged quota record'')
               else mergeLoop F (Suc i) rest
                      (deleted @ [\<lparr>UserID = gUserID grp, Amount = gTotalAmount grp,
                                   ExpiryDate = gExpiryDate grp, Status = gStatus grp\<rparr>]))
            else mergeLoop F (Suc i) rest deleted))"

definition MergeQuotaRecords :: "faults \<Rightarrow> world \<Rightarrow> error option \<times> world" where
  "MergeQuotaRecords F w =
     (if F DbFindGroups then (Some (Failed ''failed to find quota groups''), w)
      else
        (case mergeLoop F 0 (findGroups (tblQuota (ledger w))) (tblQuota (ledger w)) of
           Inl e \<Rightarrow> (Some e, w)
         | Inr table \<Rightarrow> (None, w\<lparr>ledger := (ledger w)\<lparr>tblQuota := table\<rparr>\<rparr>)))"

text \<open>The key of a group, the row that replaces a group, and the sum of the
  amounts of the rows of a key, for the statement of the merge invariant.\<close>

definition groupKeyOf :: "QuotaGroup \<Rightarrow> string \<times> time \<times> quota_status" where
  "groupKeyOf g = (gUserID g, gExpiryDate g, gStatus g)"

definition mergedQuota :: "QuotaGroup \<Rightarrow> Quota" where
  "mergedQuota g = \<lparr>UserID = gUserID g, Amount = gTotalAmount g,
                    ExpiryDate = gExpiryDate g, Status = gStatus g\<rparr>"

definition groupSum :: "Quota list \<Rightarrow> string \<times> time \<times> quota_status \<Rightarrow> real" where
  "groupSum table k = sum_list (map Amount (filter (\<lambda>q. groupKey q = k) table))"

subsection \<open>A world with an expired lot and duplicate lots\<close>

definition sweepWorld :: world where
  "sweepWorld =
     \<lparr>ledger =
        \<lparr>tblQuota = [\<lparr>UserID = ''giver'', Amount = 40, ExpiryDate = 1000, Status = StatusValid\<rparr>,
                     \<lparr>UserID = ''giver'', Amount = 60, ExpiryDate = 5000, Status = StatusValid\<rparr>,
                     \<lparr>UserID = ''other'', Amount = 10, ExpiryDate = 5000, Status = StatusValid\<rparr>,
                     \<lparr>UserID = ''giver'', Amount = 5, ExpiryDate = 5000, Status = StatusValid\<rparr>],
         tblQuotaAudit = [],
         tblVoucherRedemption = []\<rparr>,
      authdb = [],
      aigateway = \<lparr>gwTotal = (\<lambda>u. if u = ''giver'' then 105 else if u = ''other'' then 12 else 0),
                   gwUsed = (\<lambda>u. if u = ''giver'' then 30 else if u = ''other'' then 5 else 0),
                   gwStarred = (\<lambda>u. [])\<rparr>\<rparr>"

section \<open>AddQuotaForStrategy\<close>

text \<open>The reading of \<open>time.Now().Truncate(time.Second)\<close> in the local time
  zone: the calendar fields that \<open>now.Year()\<close>, \<open>now.Month()\<close> and so on return.
  The zone is taken to have one fixed offset, so a span of local time is the
  same span of absolute time, and the offset is left out.\<close>

record clock =
  Year :: int
  Month :: int
  Day :: int
  Hour :: int
  Minute :: int
  Second :: int

text \<open>\<open>time.Date\<close> of the Go library, after its documentation: values outside
  their usual ranges are normalised, the month overflowing into the year, and
  days, hours, minutes and seconds adding up linearly, so that day \<open>0\<close> of a
  month is the last day of the month before.\<close>

definition isLeap :: "int \<Rightarrow> bool" where
  "isLeap y = (y mod 4 = 0 \<and> (y mod 100 \<noteq> 0 \<or> y mod 400 = 0))"

text \<open>Days from 1 January of year 1 to 1 January of year \<open>y\<close>.\<close>

definition daysBeforeYear :: "int \<Rightarrow> int" where
  "daysBeforeYear y = 365 * (y - 1) + (y - 1) div 4 - (y - 1) div 100 + (y - 1) div 400"

text \<open>Days from 1 January to the first day of month \<open>m\<close>, \<open>1 \<le> m \<le> 12\<close>, in
  a year that is not a leap year.\<close>

definition daysBefore :: "int \<Rightarrow> int" where
  "daysBefore m = [0, 31, 59, 90, 120, 151, 181, 212, 243, 273, 304, 334] ! nat (m - 1)"

definition Date :: "int \<Rightarrow> int \<Rightarrow> int \<Rightarrow> int \<Rightarrow> int \<Rightarrow> int \<Rightarrow> time" where
  "Date year month day hour minute sec =
     (let m = month - 1;
          year' = year + m div 12;
          month' = m mod 12 + 1;
          d = daysBeforeYear year' + daysBefore month'
                + (if isLeap year' \<and> month' \<ge> 3 then 1 else 0) + (day - 1)
      in (d - 719162) * 86400 + hour * 3600 + minute * 60 + sec)"

definition instantOf :: "clock \<Rightarrow> time" where
  "instantOf now = Date (Year now) (Month now) (Day now) (Hour now) (Minute now) (Second now)"

text \<open>The expiry date \<open>AddQuotaForStrategy\<close> computes.  \<open>Hours() < 24*30\<close> on a
  span of whole seconds is the span being under \<open>30 * 24 * 3600\<close> seconds.\<close>

definition strategyExpiryDate :: "clock \<Rightarrow> time" where
  "strategyExpiryDate now =
     (let endOfMonth = Date (Year now) (Month now + 1) 0 23 59 59
      in if endOfMonth - instantOf now < 24 * 30 * 3600
         then Date (Year now) (Month now + 2) 0 23 59 59
         else endOfMonth)"

definition rechargeAudit :: "string \<Rightarrow> real \<Rightarrow> string \<Rightarrow> time \<Rightarrow> QuotaAudit" where
  "rechargeAudit userID amount strategyName expiryDate =
     \<lparr>auUserID = userID, auAmount = amount, auOperation = OperationRecharge,
      auVoucherCode = [], auRelatedUser = [], auStrategyName = strategyName,
      auExpiryDate = expiryDate,
      auDetails =
        \<lparr>detOperation = OperationRecharge,
         Summary = \<lparr>TotalAmount = amount, TotalItems = 1, SuccessfulItems = 1,
                    FailedItems = 0, ExpiredItems = 0, EarliestExpiryDate = expiryDate\<rparr>,
         Items = [\<lparr>dAmount = amount, dExpiryDate = expiryDate, dStatus = AuditStatusSuccess,
                   dFailureReason =
                     (if strategyName \<noteq> [] then ''Strategy: '' @ strategyName else [])\<rparr>]\<rparr>\<rparr>"

text \<open>\<open>AddQuotaForStrategy\<close> at clock reading \<open>now\<close>.  The original and the
  new quota of the audit item are not kept in the model of the details.\<close>

definition AddQuotaForStrategy ::
  "clock \<Rightarrow> faults \<Rightarrow> world \<Rightarrow> string \<Rightarrow> real \<Rightarrow> string \<Rightarrow> error option \<times> world" where
  "AddQuotaForStrategy now F w userID amount strategyName =
     (let expiryDate = strategyExpiryDate now;
          matches = (\<lambda>q. UserID q = userID \<and> ExpiryDate q = expiryDate \<and> Status q = StatusValid);
          upsert =
            (if F (DbFindQuota 0) then Inl (Failed ''failed to query quota'')
             else
               (case find matches (tblQuota (ledger w)) of
                  None \<Rightarrow>
                    if F (DbCreateQuota 0) then Inl (Failed ''failed to create quota'')
                    else Inr (tblQuota (ledger w) @
                                [\<lparr>UserID = userID, Amount = amount, ExpiryDate = expiryDate,
                                  Status = StatusValid\<rparr>])
                | Some quota \<Rightarrow>
                    if F (DbUpdateQuota 0) then Inl (Failed ''failed to update quota'')
                    else Inr (updateFirst matches (\<lambda>q. q\<lparr>Amount := Amount quota + amount\<rparr>)
                                (tblQuota (ledger w)))))
      in case upsert of
           Inl e \<Rightarrow> (Some e, w)
         | Inr table \<Rightarrow>
             if F MarshalDetails then (Some (Failed ''failed to marshal audit details''), w)
             else if F DbCreateAudit then (Some (Failed ''failed to create audit record''), w)
             else
               (case deltaQuotaInAiGateway F (aigateway w) userID amount of
                  Inl e \<Rightarrow> (Some (Failed ''failed to update AiGateway quota''), w)
                | Inr gw1 \<Rightarrow>
                    (None,
                     w\<lparr>ledger := (ledger w)
                          \<lparr>tblQuota := table,
                           tblQuotaAudit := tblQuotaAudit (ledger w) @
                             [rechargeAudit userID amount strategyName expiryDate]\<rparr>,
                       aigateway := gw1\<rparr>)))"

subsection \<open>The end-of-month rule, as the specification words it\<close>

definition daysInMonth :: "int \<Rightarrow> int \<Rightarrow> int" where
  "daysInMonth y m =
     (if m = 2 then (if isLeap y then 29 else 28)
      else if m \<in> {4, 6, 9, 11} then 30 else 31)"

text \<open>The last second of month \<open>m\<close> of year \<open>y\<close>: its last day, 23:59:59.\<close>

definition endOfMonthOf :: "int \<Rightarrow> int \<Rightarrow> time" where
  "endOfMonthOf y m = Date y m (daysInMonth y m) 23 59 59"

definition endOfNextMonthOf :: "int \<Rightarrow> int \<Rightarrow> time" where
  "endOfNextMonthOf y m = (if m = 12 then endOfMonthOf (y + 1) 1 else endOfMonthOf y (m + 1))"

text \<open>Within 30 days of the end of the current month: less than 30 days are
  left until then.\<close>

definition endOfMonthRule :: "clock \<Rightarrow> time" where
  "endOfMonthRule now =
     (if endOfMonthOf (Year now) (Month now) - instantOf now < 30 * 86400
      then endOfNextMonthOf (Year now) (Month now)
      else endOfMonthOf (Year now) (Month now))"

text \<open>A clock reading is a date of the calendar with a time of day.\<close>

definition validClock :: "clock \<Rightarrow> bool" where
  "validClock now =
     (1 \<le> Month now \<and> Month now \<le> 12
      \<and> 1 \<le> Day now \<and> Day now \<le> daysInMonth (Year now) (Month now)
      \<and> 0 \<le> Hour now \<and> Hour now < 24 \<and> 0 \<le> Minute now \<and> Minute now < 60
      \<and> 0 \<le> Second now \<and> Second now < 60)"

section \<open>Properties of GetUserQuota\<close>


lemma set_findValidQuotas:
  "set (findValidQuotas db userID) = {q \<in> set db. UserID q = userID \<and> Status q = StatusValid}"
  by (auto simp: findValidQuotas_def)


lemma debtBefore_Nil: "debtBefore used [] = max 0 used"
  by (simp add: debtBefore_def)

lemma remainingOf_0: "remainingOf used (q # qs) 0 = max 0 (Amount q - max 0 used)"
  by (simp add: remainingOf_def debtBefore_def)

lemma sum_take_nonneg:
  "\<forall>q \<in> set qs. 0 \<le> Amount q \<Longrightarrow> 0 \<le> sum_list (map Amount (take i qs))"
  by (rule sum_list_nonneg) (auto dest: in_set_takeD)

lemma remainingOf_Suc:
  assumes "0 \<le> Amount q" and "\<forall>x \<in> set qs. 0 \<le> Amount x"
  shows "remainingOf used (q # qs) (Suc i) = remainingOf (max 0 used - Amount q) qs i"
proof -
  have "0 \<le> sum_list (map Amount (take i qs))"
    using assms(2) by (rule sum_take_nonneg)
  then have "debtBefore used (take (Suc i) (q # qs)) = debtBefore (max 0 used - Amount q) (take i qs)"
    using assms(1) by (simp add: debtBefore_def max_def)
  then show ?thesis
    by (simp add: remainingOf_def)
qed


lemma debtBefore_nonpos:
  assumes "used \<le> 0" and "\<forall>x \<in> set qs. 0 \<le> Amount x"
  shows "debtBefore used (take i qs) = 0"
proof -
  have "0 \<le> sum_list (map Amount (take i qs))"
    using assms(2) by (rule sum_take_nonneg)
  then show ?thesis
    using assms(1) by (simp add: debtBefore_def max_def)
qed





section \<open>Properties of ExpireQuotas\<close>









section \<open>Properties of TransferIn\<close>

lemma overallStatus_cases:
  "fst (overallStatus sc n ex) =
     (if sc = 0 then TransferStatusFailed
      else if sc = n then TransferStatusSuccess else TransferStatusPartialSuccess)"
  by (simp add: overallStatus_def)

lemma overallStatus_message: "snd (overallStatus sc n ex) \<noteq> []"
  by (simp add: overallStatus_def)



lemma statusOnly_sel:
  "respStatus (statusOnly s m) = s" "respMessage (statusOnly s m) = m"
  "respQuotaList (statusOnly s m) = []" "respGiverID (statusOnly s m) = []"
  by (simp_all add: statusOnly_def)

lemma find_redemption_iff:
  "(find (\<lambda>r. rVoucherCode r = code) table \<noteq> None) = (code \<in> set (map rVoucherCode table))"
  by (auto simp: find_None_iff)

text \<open>
  Claim C4.  Whatever the voucher code, the receiver, the world and the faults
  of storage and gateway, \<open>TransferIn\<close> returns a response and no error; the
  status of the response is one of SUCCESS, PARTIAL_SUCCESS, FAILED and
  ALREADY_REDEEMED, and its message is not empty.
\<close>

theorem TransferIn_always_responds:
  "\<exists>r. fst (TransferIn E F w receiver voucherCode) = (Some r, None)
       \<and> respStatus r \<in> {TransferStatusSuccess, TransferStatusPartialSuccess,
                            TransferStatusFailed, TransferStatusAlreadyRedeemed}
       \<and> respMessage r \<noteq> []"
  using overallStatus_cases overallStatus_message
  by (simp add: TransferIn_def Let_def split_beta statusOnly_sel split: option.splits sum.splits)

theorem TransferIn_always_responds_witness:
  "fst (TransferIn exampleEnv (onlyFault (GwDeltaTotal ''receiver'')) exampleWorld exampleReceiver
          ''two-items'')
     = (Some (statusOnly TransferStatusFailed ''Failed to update AiGateway quota''), None)
   \<and> fst (TransferIn exampleEnv noFaults exampleWorld exampleReceiver ''unknown'')
     = (Some (statusOnly TransferStatusFailed ''Invalid voucher code''), None)"
  using TransferIn_always_responds [of exampleEnv "onlyFault (GwDeltaTotal ''receiver'')"
      exampleWorld exampleReceiver "''two-items''"]
  by (simp add: TransferIn_def exampleEnv_def exampleDecode_def exampleVoucher_def
      exampleReceiver_def exampleWorld_def onlyFault_def noFaults_def createRedemption_def
      transferInItem_def credited_def deltaQuotaInAiGateway_def Let_def)

text \<open>
  Claim C3, as amended.  For a voucher that decodes and names the caller as
  receiver: when the lookup that precedes the insert finds a redemption row
  for the voucher code, whichever receiver recorded it, the call returns
  ALREADY_REDEEMED with the giver fields decoded from the voucher; when the
  lookup finds none and the insert of the redemption row fails, the unique
  index on the code included, the call returns FAILED with the message
  \<open>Failed to record voucher redemption\<close> and no giver fields.  Either way the
  world is left as it was.
\<close>

theorem TransferIn_redemption_outcomes:
  assumes "ValidateAndDecodeVoucher E voucherCode = Some voucherData"
    and "ReceiverID voucherData = authID receiver"
  shows "(\<not> F DbFindRedemption
            \<and> voucherCode \<in> set (map rVoucherCode (tblVoucherRedemption (ledger w)))
          \<longrightarrow> TransferIn E F w receiver voucherCode =
                ((Some \<lparr>respGiverID = GiverID voucherData, respGiverName = GiverName voucherData,
                        respGiverPhone = GiverPhone voucherData,
                        respGiverGithub = GiverGithub voucherData,
                        respReceiverID = authID receiver, respQuotaList = [],
                        respVoucherCode = voucherCode, respOperation = Some OperationTransferIn,
                        respAmount = 0, respStatus = TransferStatusAlreadyRedeemed,
                        respMessage = ''Voucher has already been redeemed''\<rparr>, None), w))
       \<and> ((F DbFindRedemption
             \<or> voucherCode \<notin> set (map rVoucherCode (tblVoucherRedemption (ledger w))))
            \<and> createRedemption F \<lparr>rVoucherCode = voucherCode, rReceiverID = authID receiver\<rparr>
                  (tblVoucherRedemption (ledger w)) = None
          \<longrightarrow> TransferIn E F w receiver voucherCode =
                ((Some (statusOnly TransferStatusFailed ''Failed to record voucher redemption''),
                  None), w))"
proof (intro conjI impI)
  assume "\<not> F DbFindRedemption
      \<and> voucherCode \<in> set (map rVoucherCode (tblVoucherRedemption (ledger w)))"
  then have "\<not> F DbFindRedemption
      \<and> find (\<lambda>r. rVoucherCode r = voucherCode) (tblVoucherRedemption (ledger w)) \<noteq> None"
    unfolding find_redemption_iff .
  then show "TransferIn E F w receiver voucherCode =
      ((Some \<lparr>respGiverID = GiverID voucherData, respGiverName = GiverName voucherData,
              respGiverPhone = GiverPhone voucherData,
              respGiverGithub = GiverGithub voucherData,
              respReceiverID = authID receiver, respQuotaList = [],
              respVoucherCode = voucherCode, respOperation = Some OperationTransferIn,
              respAmount = 0, respStatus = TransferStatusAlreadyRedeemed,
              respMessage = ''Voucher has already been redeemed''\<rparr>, None), w)"
    using assms unfolding TransferIn_def by simp
next
  assume a: "(F DbFindRedemption
        \<or> voucherCode \<notin> set (map rVoucherCode (tblVoucherRedemption (ledger w))))
      \<and> createRedemption F \<lparr>rVoucherCode = voucherCode, rReceiverID = authID receiver\<rparr>
            (tblVoucherRedemption (ledger w)) = None"
  then have "\<not> (\<not> F DbFindRedemption
      \<and> find (\<lambda>r. rVoucherCode r = voucherCode) (tblVoucherRedemption (ledger w)) \<noteq> None)"
    unfolding find_redemption_iff by blast
  then have "F DbFindRedemption
      \<or> find (\<lambda>r. rVoucherCode r = voucherCode) (tblVoucherRedemption (ledger w)) = None"
    by blast
  moreover have "createRedemption F \<lparr>rVoucherCode = voucherCode, rReceiverID = authID receiver\<rparr>
      (tblVoucherRedemption (ledger w)) = None"
    using a by blast
  ultimately show "TransferIn E F w receiver voucherCode =
      ((Some (statusOnly TransferStatusFailed ''Failed to record voucher redemption''), None), w)"
    using assms unfolding TransferIn_def by auto
qed

theorem TransferIn_redemption_outcomes_witness:
  "TransferIn exampleEnv noFaults exampleWorld exampleReceiver ''used-voucher'' =
     ((Some \<lparr>respGiverID = ''giver'', respGiverName = ''G'', respGiverPhone = [],
             respGiverGithub = [], respReceiverID = ''receiver'', respQuotaList = [],
             respVoucherCode = ''used-voucher'', respOperation = Some OperationTransferIn,
             respAmount = 0, respStatus = TransferStatusAlreadyRedeemed,
             respMessage = ''Voucher has already been redeemed''\<rparr>, None), exampleWorld)
   \<and> TransferIn exampleEnv (onlyFault DbCreateRedemption) exampleWorld exampleReceiver ''no-items'' =
     ((Some (statusOnly TransferStatusFailed ''Failed to record voucher redemption''), None),
      exampleWorld)"
proof -
  have d1: "ValidateAndDecodeVoucher exampleEnv ''used-voucher''
      = Some (exampleVoucher [\<lparr>vAmount = 10, vExpiryDate = 5000\<rparr>])"
    and d2: "ValidateAndDecodeVoucher exampleEnv ''no-items'' = Some (exampleVoucher [])"
    by (simp_all add: exampleEnv_def exampleDecode_def)
  have r: "\<And>items. ReceiverID (exampleVoucher items) = authID exampleReceiver"
    by (simp add: exampleVoucher_def exampleReceiver_def)
  show ?thesis
    using TransferIn_redemption_outcomes [OF d1 r, of noFaults exampleWorld]
      TransferIn_redemption_outcomes [OF d2 r, of "onlyFault DbCreateRedemption" exampleWorld]
    by (simp add: exampleVoucher_def exampleReceiver_def exampleWorld_def noFaults_def
        onlyFault_def createRedemption_def)
qed

text \<open>The claim as stated fails: the voucher code is in the redemption table,
  the lookup itself fails, the insert then fails on the unique index alone, and
  the status returned is FAILED, not ALREADY_REDEEMED.\<close>

theorem TransferIn_insert_conflict_counterexample:
  "''used-voucher'' \<in> set (map rVoucherCode (tblVoucherRedemption (ledger exampleWorld)))
   \<and> \<not> onlyFault DbFindRedemption DbCreateRedemption
   \<and> createRedemption (onlyFault DbFindRedemption)
        \<lparr>rVoucherCode = ''used-voucher'', rReceiverID = authID exampleReceiver\<rparr>
        (tblVoucherRedemption (ledger exampleWorld)) = None
   \<and> fst (TransferIn exampleEnv (onlyFault DbFindRedemption) exampleWorld exampleReceiver
            ''used-voucher'')
       = (Some (statusOnly TransferStatusFailed ''Failed to record voucher redemption''), None)
   \<and> respStatus (statusOnly TransferStatusFailed ''Failed to record voucher redemption'')
       \<noteq> TransferStatusAlreadyRedeemed"
  by (simp add: TransferIn_def exampleEnv_def exampleDecode_def exampleVoucher_def
      exampleReceiver_def exampleWorld_def onlyFault_def createRedemption_def statusOnly_def
      TransferStatusFailed_def TransferStatusAlreadyRedeemed_def)




section \<open>Properties of TransferOut\<close>




lemma validateLoop_offender:
  "\<exists>x \<in> set items. m (tExpiryDate x) = None
      \<or> (\<exists>a. m (tExpiryDate x) = Some a \<and> a < tAmount x) \<Longrightarrow>
   validateLoop F m table giverID i items \<noteq> None"
  by (induction items arbitrary: i) (auto split: option.splits)


text \<open>An item that fails a check makes the whole call fail, wherever it
  stands in the request.\<close>

lemma TransferOut_offender_fails:
  assumes "\<exists>x \<in> set (reqQuotaList req).
      quotaAvailabilityMap w (authID giver) (tExpiryDate x) = None
      \<or> (\<exists>a. quotaAvailabilityMap w (authID giver) (tExpiryDate x) = Some a \<and> a < tAmount x)"
  shows "\<exists>e. TransferOut E F w giver req = (Inl e, w)"
proof -
  have "validateLoop F (quotaAvailabilityMap w (authID giver)) (tblQuota (ledger w))
      (authID giver) 0 (reqQuotaList req) \<noteq> None"
    using assms by (rule validateLoop_offender)
  then show ?thesis
    by (auto simp: TransferOut_def Let_def)
qed



text \<open>A request that passes every check is carried out: the lots are
  reduced, an audit record is written and the gateway total lowered.\<close>

lemma TransferOut_success_example:
  "fst (TransferOut exampleEnv noFaults exampleWorld exampleGiver
     \<lparr>reqReceiverID = '' receiver'',
      reqQuotaList = [\<lparr>tAmount = 60, tExpiryDate = 5000\<rparr>, \<lparr>tAmount = 10, tExpiryDate = 1000\<rparr>]\<rparr>)
     = Inr \<lparr>outVoucherCode = ''fresh-voucher'', outRelatedUser = ''receiver'',
            outOperation = OperationTransferOut,
            outQuotaList = [\<lparr>tAmount = 60, tExpiryDate = 5000\<rparr>,
                            \<lparr>tAmount = 10, tExpiryDate = 1000\<rparr>]\<rparr>
   \<and> tblQuota (ledger (snd (TransferOut exampleEnv noFaults exampleWorld exampleGiver
     \<lparr>reqReceiverID = '' receiver'',
      reqQuotaList = [\<lparr>tAmount = 60, tExpiryDate = 5000\<rparr>, \<lparr>tAmount = 10, tExpiryDate = 1000\<rparr>]\<rparr>)))
     = [\<lparr>UserID = ''giver'', Amount = 30, ExpiryDate = 1000, Status = StatusValid\<rparr>]
   \<and> gwTotal (aigateway (snd (TransferOut exampleEnv noFaults exampleWorld exampleGiver
     \<lparr>reqReceiverID = '' receiver'',
      reqQuotaList = [\<lparr>tAmount = 60, tExpiryDate = 5000\<rparr>, \<lparr>tAmount = 10, tExpiryDate = 1000\<rparr>]\<rparr>)))
       ''giver'' = 30"
  by (simp add: TransferOut_def quotaAvailabilityMap_def exampleWorld_def exampleGateway_def
      exampleGiver_def exampleEnv_def findValidQuotas_def noFaults_def totalQuotaAmount_def
      lotOf_def TrimSpace_def isSpace_def deltaQuotaInAiGateway_def Let_def)

subsection \<open>The availability map holds the FIFO view\<close>

text \<open>For lots with non-negative amounts the entry of \<open>quotaAvailabilityMap\<close> at
  an expiry date is the sum, over the giver's VALID lots of that date, of what
  the net-available view of \<open>GetUserQuota\<close> leaves of each lot.\<close>

lemma availableAt_Cons:
  assumes "0 \<le> Amount q" and "\<forall>x \<in> set qs. 0 \<le> Amount x"
  shows "availableAt used (q # qs) e =
    (if ExpiryDate q = e then max 0 (Amount q - max 0 used) else 0)
      + availableAt (max 0 used - Amount q) qs e"
proof -
  have idx: "[0..<length (q # qs)] = 0 # map Suc [0..<length qs]"
    by (simp add: upt_conv_Cons map_Suc_upt del: upt_Suc)
  have step: "\<And>i. remainingOf used (q # qs) (Suc i) = remainingOf (max 0 used - Amount q) qs i"
    using assms by (rule remainingOf_Suc)
  show ?thesis
    unfolding availableAt_def idx
    by (simp add: filter_map comp_def remainingOf_0 step del: upt_Suc)
qed

lemma availableAt_nonpos:
  assumes "used \<le> 0" and "used' \<le> 0" and "\<forall>x \<in> set qs. 0 \<le> Amount x"
  shows "availableAt used qs e = availableAt used' qs e"
proof -
  have "remainingOf used qs = remainingOf used' qs"
    using assms by (intro ext) (simp add: remainingOf_def debtBefore_nonpos)
  then show ?thesis
    by (simp add: availableAt_def)
qed

lemma availableAt_absent:
  assumes "e \<notin> ExpiryDate ` set qs"
  shows "availableAt used qs e = 0"
proof -
  have "filter (\<lambda>i. ExpiryDate (qs ! i) = e) [0..<length qs] = []"
    using assms by (auto simp: filter_empty_conv)
  then show ?thesis
    by (simp add: availableAt_def)
qed

lemma availabilityLoop_fifo:
  "\<forall>q \<in> set lots. 0 \<le> Amount q \<Longrightarrow>
   availabilityLoop used lots m e =
     (if e \<in> ExpiryDate ` set lots
      then Some ((case m e of None \<Rightarrow> 0 | Some a \<Rightarrow> a) + availableAt used lots e)
      else m e)"
proof (induction lots arbitrary: used m)
  case Nil
  show ?case by simp
next
  case (Cons q qs)
  have nn: "0 \<le> Amount q" and nns: "\<forall>x \<in> set qs. 0 \<le> Amount x"
    using Cons.prems by simp_all
  note ih = Cons.IH [OF nns]
  note unf = availableAt_Cons [OF nn nns, of used e]
  consider (none) "used \<le> 0" | (part) "0 < used" "used < Amount q" | (full) "0 < used" "Amount q \<le> used"
    by linarith
  then show ?case
  proof cases
    case none
    have "availableAt (max 0 used - Amount q) qs e = availableAt used qs e"
      using none nn nns by (intro availableAt_nonpos) (simp_all add: max_def)
    then show ?thesis
      using none nn by (auto simp: unf ih max_def Let_def availableAt_absent split: option.splits)
  next
    case part
    have "availableAt (max 0 used - Amount q) qs e = availableAt 0 qs e"
      using part nns by (intro availableAt_nonpos) (simp_all add: max_def)
    then show ?thesis
      using part nn by (auto simp: unf ih max_def Let_def availableAt_absent split: option.splits)
  next
    case full
    then show ?thesis
      using nn by (auto simp: unf ih max_def Let_def availableAt_absent split: option.splits)
  qed
qed

lemma quotaAvailabilityMap_fifo:
  assumes "\<forall>q \<in> set (tblQuota (ledger w)). lotOf giverID (ExpiryDate q) q \<longrightarrow> 0 \<le> Amount q"
    and "\<exists>q \<in> set (tblQuota (ledger w)). lotOf giverID expiry q"
  shows "quotaAvailabilityMap w giverID expiry =
     Some (availableAt (gwUsed (aigateway w) giverID)
             (findValidQuotas (tblQuota (ledger w)) giverID) expiry)"
proof -
  have nn: "\<forall>q \<in> set (findValidQuotas (tblQuota (ledger w)) giverID). 0 \<le> Amount q"
    using assms(1) by (simp add: set_findValidQuotas lotOf_def)
  have "expiry \<in> ExpiryDate ` set (findValidQuotas (tblQuota (ledger w)) giverID)"
    using assms(2) by (auto simp: set_findValidQuotas lotOf_def image_iff)
  then show ?thesis
    unfolding quotaAvailabilityMap_def availabilityLoop_fifo [OF nn] by simp
qed

section \<open>Properties of MergeQuotaRecords\<close>

lemma inGroup_key: "inGroup (gUserID g) (gExpiryDate g) (gStatus g) q = (groupKey q = groupKeyOf g)"
  by (auto simp: inGroup_def groupKey_def groupKeyOf_def)

lemma groupKey_mergedQuota: "groupKey (mergedQuota g) = groupKeyOf g"
  by (simp add: groupKey_def groupKeyOf_def mergedQuota_def)

lemma mergeLoop_Cons:
  "mergeLoop F i (g # rest) table = Inr table' \<Longrightarrow>
   mergeLoop F (Suc i) rest
     (filter (\<lambda>q. groupKey q \<noteq> groupKeyOf g) table
        @ (if gTotalAmount g > 0 then [mergedQuota g] else [])) = Inr table'"
  by (simp add: inGroup_key mergedQuota_def Let_def split: if_splits)

lemma mergeLoop_other_rows:
  "mergeLoop F i gs table = Inr table' \<Longrightarrow> k \<notin> set (map groupKeyOf gs) \<Longrightarrow>
   filter (\<lambda>q. groupKey q = k) table' = filter (\<lambda>q. groupKey q = k) table"
proof (induction gs arbitrary: i table)
  case Nil
  then show ?case by simp
next
  case (Cons g rest)
  have k: "k \<noteq> groupKeyOf g" and krest: "k \<notin> set (map groupKeyOf rest)"
    using Cons.prems(2) by auto
  have "filter (\<lambda>q. groupKey q = k) table'
      = filter (\<lambda>q. groupKey q = k)
          (filter (\<lambda>q. groupKey q \<noteq> groupKeyOf g) table
             @ (if gTotalAmount g > 0 then [mergedQuota g] else []))"
    using Cons.IH [OF mergeLoop_Cons [OF Cons.prems(1)] krest] .
  also have "\<dots> = filter (\<lambda>q. groupKey q = k) table"
    using k by (auto simp: groupKey_mergedQuota intro: filter_cong)
  finally show ?case .
qed

lemma mergeLoop_group_rows:
  "mergeLoop F i gs table = Inr table' \<Longrightarrow> distinct (map groupKeyOf gs) \<Longrightarrow> g \<in> set gs \<Longrightarrow>
   filter (\<lambda>q. groupKey q = groupKeyOf g) table'
     = (if gTotalAmount g > 0 then [mergedQuota g] else [])"
proof (induction gs arbitrary: i table)
  case Nil
  then show ?case by simp
next
  case (Cons h rest)
  let ?t1 = "filter (\<lambda>q. groupKey q \<noteq> groupKeyOf h) table
      @ (if gTotalAmount h > 0 then [mergedQuota h] else [])"
  have run: "mergeLoop F (Suc i) rest ?t1 = Inr table'"
    using Cons.prems(1) by (rule mergeLoop_Cons)
  have d: "distinct (map groupKeyOf rest)" and fresh: "groupKeyOf h \<notin> set (map groupKeyOf rest)"
    using Cons.prems(2) by simp_all
  show ?case
  proof (cases "g \<in> set rest")
    case True
    then show ?thesis using Cons.IH [OF run d] by simp
  next
    case False
    then have gh: "g = h" using Cons.prems(3) by simp
    have "filter (\<lambda>q. groupKey q = groupKeyOf h) table'
        = filter (\<lambda>q. groupKey q = groupKeyOf h) ?t1"
      using mergeLoop_other_rows [OF run fresh] .
    also have "\<dots> = (if gTotalAmount h > 0 then [mergedQuota h] else [])"
      by (simp add: groupKey_mergedQuota)
    finally show ?thesis by (simp add: gh)
  qed
qed

lemma distinct_map_by_count:
  "(\<And>k. length (filter (\<lambda>x. f x = k) xs) \<le> 1) \<Longrightarrow> distinct (map f xs)"
proof (induction xs)
  case Nil
  show ?case by simp
next
  case (Cons x xs)
  have tail: "\<And>k. length (filter (\<lambda>x. f x = k) xs) \<le> 1"
  proof -
    fix k
    have "length (filter (\<lambda>x. f x = k) xs) \<le> length (filter (\<lambda>x. f x = k) (x # xs))"
      by simp
    then show "length (filter (\<lambda>x. f x = k) xs) \<le> 1"
      using Cons.prems [of k] by linarith
  qed
  have "length (filter (\<lambda>y. f y = f x) (x # xs)) \<le> 1"
    using Cons.prems [of "f x"] .
  then have "filter (\<lambda>y. f y = f x) xs = []"
    by simp
  then have "f x \<notin> f ` set xs"
    by (auto simp: filter_empty_conv)
  then show ?case
    using Cons.IH [OF tail] by simp
qed

lemma groupOf_key: "groupKeyOf (groupOf table k) = k"
  by (simp add: groupOf_def groupKeyOf_def split: prod.splits)

lemma groupOf_rows:
  "filter (inGroup (fst k) (fst (snd k)) (snd (snd k))) table = filter (\<lambda>q. groupKey q = k) table"
  by (rule filter_cong) (auto simp: inGroup_def groupKey_def)

lemma groupOf_count:
  "gRecordCount (groupOf table k) = length (filter (\<lambda>q. groupKey q = k) table)"
  using groupOf_rows [of k table] by (simp add: groupOf_def split_beta)

lemma groupOf_total: "gTotalAmount (groupOf table k) = groupSum table k"
  using groupOf_rows [of k table] by (simp add: groupOf_def groupSum_def split_beta)

lemma keys_findGroups:
  "map groupKeyOf (findGroups table)
     = filter (\<lambda>k. length (filter (\<lambda>q. groupKey q = k) table) > 1) (remdups (map groupKey table))"
  by (simp add: findGroups_def filter_map comp_def groupOf_key groupOf_count)

lemma distinct_findGroups: "distinct (map groupKeyOf (findGroups table))"
  by (simp add: keys_findGroups)

lemma set_findGroups:
  "(k \<in> set (map groupKeyOf (findGroups table)))
     = (length (filter (\<lambda>q. groupKey q = k) table) > 1)"
proof -
  have "length (filter (\<lambda>q. groupKey q = k) table) > 1 \<Longrightarrow> k \<in> set (map groupKey table)"
  proof -
    assume "length (filter (\<lambda>q. groupKey q = k) table) > 1"
    then have "filter (\<lambda>q. groupKey q = k) table \<noteq> []"
      by auto
    then show ?thesis
      by (auto simp: filter_empty_conv)
  qed
  then show ?thesis
    unfolding keys_findGroups by auto
qed

lemma findGroups_member:
  "g \<in> set (findGroups table) \<Longrightarrow> g = groupOf table (groupKeyOf g)"
  by (auto simp: findGroups_def groupOf_key)

text \<open>
  Claim C7.  After \<open>MergeQuotaRecords\<close> completes without error, no two lots
  share the same user, expiry date and status; in particular no two VALID lots
  share user and expiry date.  For lots with non-negative amounts, as the data
  model has them, the amounts of every group (user, expiry date, status) sum
  to the same value before and after the merge.
\<close>

theorem MergeQuotaRecords_invariant:
  assumes "MergeQuotaRecords F w = (None, w')"
  shows "distinct (map groupKey (tblQuota (ledger w')))
       \<and> ((\<forall>q \<in> set (tblQuota (ledger w)). 0 \<le> Amount q)
            \<longrightarrow> (\<forall>k. groupSum (tblQuota (ledger w')) k = groupSum (tblQuota (ledger w)) k))"
proof -
  let ?T = "tblQuota (ledger w)"
  let ?T' = "tblQuota (ledger w')"
  let ?gs = "findGroups ?T"
  have run: "mergeLoop F 0 ?gs ?T = Inr ?T'"
    using assms unfolding MergeQuotaRecords_def
    by (auto split: if_splits sum.splits)
  have rows: "filter (\<lambda>q. groupKey q = k) ?T' =
      (if length (filter (\<lambda>q. groupKey q = k) ?T) > 1
       then (if groupSum ?T k > 0 then [mergedQuota (groupOf ?T k)] else [])
       else filter (\<lambda>q. groupKey q = k) ?T)" for k
  proof (cases "length (filter (\<lambda>q. groupKey q = k) ?T) > 1")
    case True
    then have "k \<in> set (map groupKeyOf ?gs)"
      by (simp add: set_findGroups del: set_map)
    then obtain g where g: "g \<in> set ?gs" and gk: "groupKeyOf g = k"
      by auto
    have "g = groupOf ?T k"
      using findGroups_member [OF g] gk by simp
    then have mem: "groupOf ?T k \<in> set ?gs"
      using g by simp
    show ?thesis
      using mergeLoop_group_rows [OF run distinct_findGroups mem] True
      by (simp add: groupOf_key groupOf_total)
  next
    case False
    then have "k \<notin> set (map groupKeyOf ?gs)"
      by (simp add: set_findGroups del: set_map)
    then show ?thesis
      using mergeLoop_other_rows [OF run] False by simp
  qed
  have "length (filter (\<lambda>q. groupKey q = k) ?T') \<le> 1" for k
    by (simp add: rows)
  then have first: "distinct (map groupKey ?T')"
    by (rule distinct_map_by_count)
  have second: "groupSum ?T' k = groupSum ?T k" if nn: "\<forall>q \<in> set ?T. 0 \<le> Amount q" for k
  proof -
    have "0 \<le> groupSum ?T k"
      unfolding groupSum_def using nn by (intro sum_list_nonneg) auto
    then show ?thesis
      using rows [of k]
      by (auto simp: groupSum_def mergedQuota_def groupOf_total split: if_splits)
  qed
  show ?thesis
    using first second by blast
qed

theorem MergeQuotaRecords_invariant_witness:
  "fst (MergeQuotaRecords noFaults sweepWorld) = None
   \<and> tblQuota (ledger (snd (MergeQuotaRecords noFaults sweepWorld))) =
       [\<lparr>UserID = ''giver'', Amount = 40, ExpiryDate = 1000, Status = StatusValid\<rparr>,
        \<lparr>UserID = ''other'', Amount = 10, ExpiryDate = 5000, Status = StatusValid\<rparr>,
        \<lparr>UserID = ''giver'', Amount = 65, ExpiryDate = 5000, Status = StatusValid\<rparr>]
   \<and> distinct (map groupKey (tblQuota (ledger (snd (MergeQuotaRecords noFaults sweepWorld)))))
   \<and> groupSum (tblQuota (ledger (snd (MergeQuotaRecords noFaults sweepWorld))))
        (''giver'', 5000, StatusValid)
       = groupSum (tblQuota (ledger sweepWorld)) (''giver'', 5000, StatusValid)"
proof -
  have run: "fst (MergeQuotaRecords noFaults sweepWorld) = None
      \<and> tblQuota (ledger (snd (MergeQuotaRecords noFaults sweepWorld))) =
       [\<lparr>UserID = ''giver'', Amount = 40, ExpiryDate = 1000, Status = StatusValid\<rparr>,
        \<lparr>UserID = ''other'', Amount = 10, ExpiryDate = 5000, Status = StatusValid\<rparr>,
        \<lparr>UserID = ''giver'', Amount = 65, ExpiryDate = 5000, Status = StatusValid\<rparr>]"
    by (simp add: MergeQuotaRecords_def findGroups_def groupOf_def groupKey_def inGroup_def
        sweepWorld_def noFaults_def Let_def)
  then have whole: "MergeQuotaRecords noFaults sweepWorld
      = (None, snd (MergeQuotaRecords noFaults sweepWorld))"
    by (metis prod.collapse)
  have nn: "\<forall>q \<in> set (tblQuota (ledger sweepWorld)). 0 \<le> Amount q"
    by (simp add: sweepWorld_def)
  from MergeQuotaRecords_invariant [OF whole] nn run show ?thesis
    by blast
qed

text \<open>Outside the data model, a group whose amounts sum to nothing positive
  is deleted and not replaced: the guard on the merged row.\<close>

lemma MergeQuotaRecords_nonpositive_group:
  "mergeLoop noFaults 0
     (findGroups [\<lparr>UserID = ''u'', Amount = - 5, ExpiryDate = 1, Status = StatusValid\<rparr>,
                  \<lparr>UserID = ''u'', Amount = 2, ExpiryDate = 1, Status = StatusValid\<rparr>])
     [\<lparr>UserID = ''u'', Amount = - 5, ExpiryDate = 1, Status = StatusValid\<rparr>,
      \<lparr>UserID = ''u'', Amount = 2, ExpiryDate = 1, Status = StatusValid\<rparr>] = Inr []"
  by (simp add: findGroups_def groupOf_def groupKey_def inGroup_def noFaults_def Let_def)

section \<open>Properties of the permission projector\<close>

lemma quotaCheckDeptLoop_scan:
  "n \<le> length departments \<Longrightarrow>
   quotaCheckDeptLoop settings departments n =
     (case List.map_filter (departmentLevel settings) (rev (take n departments)) of
        s # rest \<Rightarrow> (Enabled s, Some (ID s))
      | [] \<Rightarrow> (False, None))"
proof (induction n)
  case 0
  show ?case by (simp add: List.map_filter_simps)
next
  case (Suc n)
  then have lt: "n < length departments" and le: "n \<le> length departments"
    by simp_all
  have split: "rev (take (Suc n) departments) = departments ! n # rev (take n departments)"
    using lt by (simp add: take_Suc_conv_app_nth)
  show ?case
    using Suc.IH [OF le]
    by (simp add: split List.map_filter_simps departmentLevel_def split: option.splits)
qed

lemma starCheckDeptLoop_scan:
  "n \<le> length departments \<Longrightarrow>
   starCheckDeptLoop settings departments n =
     (case List.map_filter (departmentLevel settings) (rev (take n departments)) of
        s # rest \<Rightarrow> (Enabled s, Some (ID s))
      | [] \<Rightarrow> (False, None))"
proof (induction n)
  case 0
  show ?case by (simp add: List.map_filter_simps)
next
  case (Suc n)
  then have lt: "n < length departments" and le: "n \<le> length departments"
    by simp_all
  have split: "rev (take (Suc n) departments) = departments ! n # rev (take n departments)"
    using lt by (simp add: take_Suc_conv_app_nth)
  show ?case
    using Suc.IH [OF le]
    by (simp add: split List.map_filter_simps departmentLevel_def split: option.splits)
qed

text \<open>
  Claim C9.  For a user \<open>u\<close> with department path \<open>path\<close> (root first), both
  \<open>calculateEffectiveQuotaCheckSetting\<close> and \<open>calculateEffectiveStarCheckSetting\<close>
  return the projection of the specification over their own setting table: the
  user-level setting with that setting as source if there is one, otherwise the
  first department setting met from the last department of the path back to the
  first, otherwise \<open>false\<close> with no source.
\<close>

theorem calculateEffective_projection:
  "calculateEffectiveQuotaCheckSetting st u path = projection (quota_check_settings st) u path
   \<and> calculateEffectiveStarCheckSetting st u path = projection (star_check_settings st) u path"
  by (simp add: calculateEffectiveQuotaCheckSetting_def calculateEffectiveStarCheckSetting_def
      projection_def userLevel_def quotaCheckDeptLoop_scan starCheckDeptLoop_scan
      split: option.splits)

theorem calculateEffective_projection_witness:
  "calculateEffectiveQuotaCheckSetting examplePermissions ''u2'' [''corp'', ''eng'', ''ai'']
     = (False, Some 3)
   \<and> calculateEffectiveStarCheckSetting examplePermissions ''u2'' [''corp'', ''eng'', ''ai'']
     = (True, Some 2)
   \<and> calculateEffectiveQuotaCheckSetting examplePermissions ''u1'' [''corp'', ''eng'', ''ai'']
     = (True, Some 1)
   \<and> calculateEffectiveStarCheckSetting examplePermissions ''u2'' [''sales'']
     = (False, None)"
  using calculateEffective_projection [of examplePermissions "''u2''" "[''corp'', ''eng'', ''ai'']"]
    calculateEffective_projection [of examplePermissions "''u1''" "[''corp'', ''eng'', ''ai'']"]
    calculateEffective_projection [of examplePermissions "''u2''" "[''sales'']"]
  by (simp add: projection_def userLevel_def departmentLevel_def examplePermissions_def
      List.map_filter_simps)

subsection \<open>Setting a user-level setting again\<close>

text \<open>
  Claim C10.  For a user known to the auth database that already has a
  user-level quota-check (star-check) setting with value \<open>v\<close>, a further
  \<open>SetUserQuotaCheckSetting\<close> (\<open>SetUserStarCheckSetting\<close>) with the same \<open>v\<close>
  returns no error and leaves the whole state as it was: no setting is written,
  no effective setting is projected again, no audit row is added and the gateway
  receives no call.
\<close>

theorem SetUserSetting_idempotent:
  assumes "find (\<lambda>x. userInfoID x = userID) (auth_users st) = Some user"
  shows "(\<forall>s. userLevel (quota_check_settings st) userID = Some s \<and> Enabled s = v
            \<longrightarrow> SetUserQuotaCheckSetting cfg F st userID v = (None, st))
       \<and> (\<forall>s. userLevel (star_check_settings st) userID = Some s \<and> Enabled s = v
            \<longrightarrow> SetUserStarCheckSetting cfg F st userID v = (None, st))"
  using assms
  by (simp add: SetUserQuotaCheckSetting_def SetUserStarCheckSetting_def userLevel_def)

theorem SetUserSetting_idempotent_witness:
  "SetUserQuotaCheckSetting exampleConfig (\<lambda>s. False) examplePermissions ''u1'' True
     = (None, examplePermissions)
   \<and> SetUserStarCheckSetting exampleConfig (\<lambda>s. False) examplePermissions ''u1'' False
     = (None, examplePermissions)"
proof -
  have known: "find (\<lambda>x. userInfoID x = ''u1'') (auth_users examplePermissions)
      = Some \<lparr>userInfoID = ''u1'', EmployeeNumber = ''e1'', GithubStar = []\<rparr>"
    by (simp add: examplePermissions_def)
  have q: "userLevel (quota_check_settings examplePermissions) ''u1''
      = Some \<lparr>ID = 1, TargetType = TargetTypeUser, TargetIdentifier = ''u1'', Enabled = True\<rparr>"
    by (simp add: examplePermissions_def userLevel_def)
  have s: "userLevel (star_check_settings examplePermissions) ''u1''
      = Some \<lparr>ID = 1, TargetType = TargetTypeUser, TargetIdentifier = ''u1'', Enabled = False\<rparr>"
    by (simp add: examplePermissions_def userLevel_def)
  from SetUserSetting_idempotent [OF known, of True exampleConfig "\<lambda>s. False"] q
  have a: "SetUserQuotaCheckSetting exampleConfig (\<lambda>s. False) examplePermissions ''u1'' True
      = (None, examplePermissions)"
    by simp
  from SetUserSetting_idempotent [OF known, of False exampleConfig "\<lambda>s. False"] s
  have b: "SetUserStarCheckSetting exampleConfig (\<lambda>s. False) examplePermissions ''u1'' False
      = (None, examplePermissions)"
    by simp
  from a b show ?thesis by simp
qed

text \<open>The same call with the other value is not a no-op: the setting is
  rewritten, the effective setting projected, the gateway told and two audit
  rows recorded.\<close>

lemma SetUserQuotaCheckSetting_changes:
  "SetUserQuotaCheckSetting exampleConfig (\<lambda>s. False) examplePermissions ''u1'' False =
     (None, examplePermissions
        \<lparr>quota_check_settings :=
           [\<lparr>ID = 1, TargetType = TargetTypeUser, TargetIdentifier = ''u1'', Enabled = False\<rparr>,
            \<lparr>ID = 2, TargetType = TargetTypeDepartment, TargetIdentifier = ''eng'', Enabled = True\<rparr>,
            \<lparr>ID = 3, TargetType = TargetTypeDepartment, TargetIdentifier = ''ai'', Enabled = False\<rparr>],
         effective_quota_check_settings :=
           [\<lparr>effUserID = ''u1'', effEnabled = False, effSettingID = Some 1\<rparr>],
         permission_audit :=
           [\<lparr>paOperation = OperationQuotaCheckSettingUpdate, paTargetType = TargetTypeUser,
             paTargetIdentifier = ''e1'',
             paDetails = [(''employee_number'', DString ''e1''), (''enabled'', DBool False),
                          (''setting_changed'', DBool False),
                          (''reason'', DString ''new_user_quota_check_disabled'')]\<rparr>,
            \<lparr>paOperation = OperationQuotaCheckSet, paTargetType = TargetTypeUser,
             paTargetIdentifier = ''u1'',
             paDetails = [(''user_id'', DString ''u1''), (''enabled'', DBool False)]\<rparr>],
         higress_quota_check := [(''u1'', False)]\<rparr>)"
  by (simp add: SetUserQuotaCheckSetting_def UpdateEmployeeQuotaCheckPermissions_def
      calculateEffectiveQuotaCheckSetting_def ConvertEmployeeNumberToUserID_def recordAudit_def
      saveSetting_def examplePermissions_def exampleConfig_def Let_def)

end
